theory Spec2Isabelle
  imports Main "HOL-Library.Word"
begin

unbundle bit_operations_syntax

section \<open>Basic types\<close>

text \<open>
  \<open>Value\<close>, \<open>Depth\<close> and \<open>Move\<close> are C++ enums over \<open>int\<close>; the search never
  leaves the range of a 32-bit \<open>int\<close> with them, so they are modelled as \<open>int\<close>.
  C++ integer division truncates towards zero.
\<close>

type_synonym Value = int
type_synonym Depth = int
type_synonym Move = int

definition c_div :: "int \<Rightarrow> int \<Rightarrow> int" where
  "c_div a b = sgn a * sgn b * (\<bar>a\<bar> div \<bar>b\<bar>)"

section \<open>Killer moves (search.cpp, update\_killers)\<close>

text \<open>
  \<open>ss.killers\<close> is an array of \<open>KILLER_MAX\<close> moves, modelled as a list of that length.
  \<open>shift_killers i ks\<close> is the loop
  \<^verbatim>\<open>for (int i = KILLER_MAX - 1; i > 0; i--) ss.killers[i] = ss.killers[i - 1];\<close>
  started with the loop variable at \<open>i\<close>.
\<close>

fun shift_killers :: "nat \<Rightarrow> Move list \<Rightarrow> Move list" where
  "shift_killers 0 ks = ks"
| "shift_killers (Suc i) ks = shift_killers i (ks[Suc i := ks ! i])"

definition update_killers :: "Move \<Rightarrow> Move list \<Rightarrow> Move list" where
  "update_killers m killers =
     (if m = killers ! 0 then killers
      else (shift_killers (length killers - 1) killers)[0 := m])"

section \<open>History table (history.cpp)\<close>

text \<open>
  \<open>int history[16][64]\<close>, \<open>successCount\<close> and \<open>failureCount\<close>, indexed by piece and
  destination square. The counters are C++ \<open>int\<close>s: 32-bit words read as signed numbers,
  whose addition and multiplication wrap. \<open>HistoryMax\<close> is declared in history.h, which
  is not part of the sources at hand, so it is a parameter of \<open>success\<close>.
\<close>

record History =
  history :: "nat \<Rightarrow> nat \<Rightarrow> 32 word"
  successCount :: "nat \<Rightarrow> nat \<Rightarrow> 32 word"
  failureCount :: "nat \<Rightarrow> nat \<Rightarrow> 32 word"

definition table_add :: "(nat \<Rightarrow> nat \<Rightarrow> 32 word) \<Rightarrow> nat \<Rightarrow> nat \<Rightarrow> 32 word \<Rightarrow> (nat \<Rightarrow> nat \<Rightarrow> 32 word)" where
  "table_add t p to n = t(p := (t p)(to := t p to + n))"

definition History_clear :: "History" where
  "History_clear = \<lparr> history = (\<lambda>p to. 0), successCount = (\<lambda>p to. 0),
                     failureCount = (\<lambda>p to. 0) \<rparr>"

text \<open>
  \<open>history[p][to] += int(d) * int(d)\<close> is computed in \<open>int\<close>; the comparison with
  \<open>HistoryMax\<close> and the division by 4 are those of signed numbers.
\<close>

definition success :: "int \<Rightarrow> nat \<Rightarrow> nat \<Rightarrow> Depth \<Rightarrow> History \<Rightarrow> History" where
  "success HistoryMax p to d H =
     (let h1 = table_add (history H) p to (word_of_int d * word_of_int d);
          sc = table_add (successCount H) p to 1;
          h2 = (if sint (h1 p to) \<ge> HistoryMax
                then (\<lambda>i j. if i < 16 \<and> j < 64 then word_of_int (c_div (sint (h1 i j)) 4)
                            else h1 i j)
                else h1)
      in H\<lparr> history := h2, successCount := sc \<rparr>)"

definition failure :: "nat \<Rightarrow> nat \<Rightarrow> History \<Rightarrow> History" where
  "failure p to H = H\<lparr> failureCount := table_add (failureCount H) p to 1 \<rparr>"

definition move_ordering_score :: "History \<Rightarrow> nat \<Rightarrow> nat \<Rightarrow> int" where
  "move_ordering_score H p to = sint (history H p to)"

section \<open>Transposition table entries (tt.h)\<close>

text \<open>
  A \<open>TTEntry\<close> holds a 64-bit key, the 32-bit \<open>data\<close> word and two \<open>int16_t\<close>
  fields. The accessors are those of the class.
\<close>

record TTEntry =
  key_field :: "64 word"
  data :: "32 word"
  value_field :: "16 word"
  depth_field :: "16 word"

definition tte_key :: "TTEntry \<Rightarrow> 64 word" where
  "tte_key e = key_field e"

definition tte_depth :: "TTEntry \<Rightarrow> Depth" where
  "tte_depth e = sint (depth_field e)"

definition tte_move :: "TTEntry \<Rightarrow> 32 word" where
  "tte_move e = data e AND 0x1FFFF"

definition tte_value :: "TTEntry \<Rightarrow> Value" where
  "tte_value e = sint (value_field e)"

definition tte_type :: "TTEntry \<Rightarrow> 32 word" where
  "tte_type e = (drop_bit 20 (data e)) AND 7"

definition tte_generation :: "TTEntry \<Rightarrow> int" where
  "tte_generation e = sint (drop_bit 23 (data e))"

definition tte_staticValue :: "TTEntry \<Rightarrow> bool" where
  "tte_staticValue e = ((drop_bit 17 (data e)) AND 1 \<noteq> 0)"

definition tte_setStaticValue :: "TTEntry \<Rightarrow> TTEntry" where
  "tte_setStaticValue e = e\<lparr> data := data e OR push_bit 17 1 \<rparr>"

section \<open>UCI options (ucioption.cpp)\<close>

datatype OptionType = SPIN | COMBO | CHECK | STRING | BUTTON

record Option =
  defaultValue :: string
  currentValue :: string
  type :: OptionType
  minValue :: int
  maxValue :: int
  comboValues :: "string list"

text \<open>
  \<open>options\<close> is a \<open>std::map<std::string, Option>\<close>; standard output is the list of
  the lines written so far.
\<close>

type_synonym Options = "string \<rightharpoonup> Option"

record uci_io =
  options :: Options
  out :: "string list"

definition set_option_value :: "string \<Rightarrow> string \<Rightarrow> uci_io \<Rightarrow> uci_io" where
  "set_option_value optionName newValue io =
     (case options io optionName of
        Some opt \<Rightarrow> io\<lparr> options := (options io)(optionName \<mapsto> opt\<lparr> currentValue := newValue \<rparr>) \<rparr>
      | None \<Rightarrow> io\<lparr> out := out io @ [''No such option: '' @ optionName] \<rparr>)"

definition get_option_value_bool :: "uci_io \<Rightarrow> string \<Rightarrow> bool" where
  "get_option_value_bool io optionName =
     (case options io optionName of None \<Rightarrow> False | Some opt \<Rightarrow> currentValue opt = ''true'')"

definition push_button :: "string \<Rightarrow> uci_io \<Rightarrow> uci_io" where
  "push_button buttonName io = set_option_value buttonName ''true'' io"

definition button_was_pressed :: "string \<Rightarrow> uci_io \<Rightarrow> bool \<times> uci_io" where
  "button_was_pressed buttonName io =
     (if \<not> get_option_value_bool io buttonName then (False, io)
      else (True, set_option_value buttonName ''false'' io))"

section \<open>UCI command dispatch (uci.cpp)\<close>

text \<open>
  \<open>up >> skipws >> token\<close> skips leading white space and reads up to the next white
  space; \<open>next_token\<close> returns the token and the rest of the stream.
\<close>

definition is_space :: "char \<Rightarrow> bool" where
  "is_space c = (c \<in> {CHR '' '', CHR 0x09, CHR 0x0A, CHR 0x0B, CHR 0x0C, CHR 0x0D})"

definition next_token :: "string \<Rightarrow> string \<times> string" where
  "next_token s =
     (let s' = dropWhile is_space s
      in (takeWhile (\<lambda>c. \<not> is_space c) s', dropWhile (\<lambda>c. \<not> is_space c) s'))"

text \<open>
  The engine state the dispatcher works on: the root position (the function's static
  \<open>pos\<close>), the option map and standard output. The commands the dispatcher forwards end
  in code that is not among the sources (Position, think, perft, evaluation, the option
  object of this version of uci.cpp); each forwarded command is a field of
  \<open>uci_handlers\<close>, given the rest of the input line where the callee reads it.
\<close>

record 'p engine =
  root_pos :: 'p
  io :: uci_io

record 'p uci_handlers =
  h_go :: "string \<Rightarrow> 'p engine \<Rightarrow> bool \<times> 'p engine"
  h_from_startpos :: "'p engine \<Rightarrow> 'p engine"
  h_set_position :: "string \<Rightarrow> 'p engine \<Rightarrow> 'p engine"
  h_set_value :: "string \<Rightarrow> string \<Rightarrow> 'p engine \<Rightarrow> 'p engine"
  h_perft :: "string \<Rightarrow> 'p engine \<Rightarrow> 'p engine"
  h_print :: "'p engine \<Rightarrow> 'p engine"
  h_flip :: "'p engine \<Rightarrow> 'p engine"
  h_eval :: "'p engine \<Rightarrow> 'p engine"
  h_key :: "'p engine \<Rightarrow> 'p engine"
  h_uci :: "'p engine \<Rightarrow> 'p engine"

definition print_line :: "string \<Rightarrow> 'p engine \<Rightarrow> 'p engine" where
  "print_line l e = e\<lparr> io := (io e)\<lparr> out := out (io e) @ [l] \<rparr> \<rparr>"

text \<open>
  \<open>set_option\<close> of uci.cpp reads the rest of the line token by token: the token
  \<open>name\<close> is consumed, the tokens up to \<open>value\<close> joined by single blanks are the
  option name, the tokens after it the value. \<open>tokens\<close> is the sequence that repeated
  \<open>up >> token\<close> reads. \<open>Options[name].set_value(..)\<close> is \<open>h_set_value\<close>.
\<close>

function tokens :: "string \<Rightarrow> string list" where
  "tokens s = (if fst (next_token s) = [] then []
               else fst (next_token s) # tokens (snd (next_token s)))"
  by pat_completeness auto
termination
proof (relation "measure length")
  show "wf (measure length)" by simp
next
  fix s :: string
  assume "fst (next_token s) \<noteq> []"
  then have ne: "takeWhile (\<lambda>c. \<not> is_space c) (dropWhile is_space s) \<noteq> []"
    by (simp add: next_token_def Let_def)
  have "length (takeWhile (\<lambda>c. \<not> is_space c) (dropWhile is_space s))
        + length (dropWhile (\<lambda>c. \<not> is_space c) (dropWhile is_space s))
        = length (dropWhile is_space s)"
    by (metis length_append takeWhile_dropWhile_id)
  moreover have "length (dropWhile is_space s) \<le> length s"
    by (rule length_dropWhile_le)
  ultimately have "length (dropWhile (\<lambda>c. \<not> is_space c) (dropWhile is_space s)) < length s"
    using ne by (cases "takeWhile (\<lambda>c. \<not> is_space c) (dropWhile is_space s)") auto
  then show "(snd (next_token s), s) \<in> measure length"
    by (simp add: next_token_def Let_def)
qed

declare tokens.simps [simp del]

fun join_tokens :: "string list \<Rightarrow> string" where
  "join_tokens [] = []"
| "join_tokens [t] = t"
| "join_tokens (t # ts) = t @ '' '' @ join_tokens ts"

definition option_name :: "string \<Rightarrow> string" where
  "option_name up = join_tokens (takeWhile (\<lambda>t. t \<noteq> ''value'') (drop 1 (tokens up)))"

definition option_value :: "string \<Rightarrow> string" where
  "option_value up =
     join_tokens (drop 1 (dropWhile (\<lambda>t. t \<noteq> ''value'') (drop 1 (tokens up))))"

definition set_option :: "'p uci_handlers \<Rightarrow> string \<Rightarrow> 'p engine \<Rightarrow> 'p engine" where
  "set_option h up e =
     (if options (io e) (option_name up) \<noteq> None
      then h_set_value h (option_name up)
             (if option_value up = [] then ''true'' else option_value up) e
      else print_line (''No such option: '' @ option_name up) e)"

definition execute_uci_command :: "'p uci_handlers \<Rightarrow> string \<Rightarrow> 'p engine \<Rightarrow> bool \<times> 'p engine" where
  "execute_uci_command h cmd e =
     (let (token, up) = next_token cmd in
      if token = ''quit'' then (False, e)
      else if token = ''go'' then h_go h up e
      else if token = ''ucinewgame'' then (True, h_from_startpos h e)
      else if token = ''isready'' then (True, print_line ''readyok'' e)
      else if token = ''position'' then (True, h_set_position h up e)
      else if token = ''setoption'' then (True, set_option h up e)
      else if token = ''perft'' then (True, h_perft h up e)
      else if token = ''d'' then (True, h_print h e)
      else if token = ''flip'' then (True, h_flip h e)
      else if token = ''eval'' then (True, h_eval h e)
      else if token = ''key'' then (True, h_key h e)
      else if token = ''uci'' then (True, h_uci h e)
      else (True, print_line (''Unknown command: '' @ cmd) e))"

definition recognized_commands :: "string list" where
  "recognized_commands =
     [''quit'', ''go'', ''ucinewgame'', ''isready'', ''position'', ''setoption'', ''perft'',
      ''d'', ''flip'', ''eval'', ''key'', ''uci'']"

text \<open>Handlers that do nothing, to run the dispatcher on a concrete line.\<close>

definition idle_handlers :: "unit uci_handlers" where
  "idle_handlers =
     \<lparr> h_go = (\<lambda>up e. (True, e)), h_from_startpos = (\<lambda>e. e),
       h_set_position = (\<lambda>up e. e), h_set_value = (\<lambda>name v e. e), h_perft = (\<lambda>up e. e),
       h_print = (\<lambda>e. e), h_flip = (\<lambda>e. e), h_eval = (\<lambda>e. e), h_key = (\<lambda>e. e),
       h_uci = (\<lambda>e. e) \<rparr>"

section \<open>Search limits and polling (search.cpp: think, poll, ponderhit)\<close>

text \<open>
  The global variables of search.cpp that \<open>think\<close> initialises and \<open>poll\<close> reads and
  writes. \<open>lastInfoTime\<close> is the static local of \<open>poll\<close>,
  \<open>printCurrentLine0\<close> is \<open>Threads[0].printCurrentLine\<close>, and \<open>info_out\<close> collects
  the numbers of the \<open>info nodes .. nps .. time .. hashfull ..\<close> lines.
\<close>

record search_globals =
  Idle :: bool
  StopOnPonderhit :: bool
  AbortSearch :: bool
  Quit :: bool
  FailLow :: bool
  Problem :: bool
  NodesSincePoll :: int
  SearchStartTime :: int
  ExactMaxTime :: int
  MaxDepth :: int
  MaxNodes :: int
  InfiniteSearch :: bool
  PonderSearch :: bool
  UseTimeManagement :: bool
  MaxSearchTime :: int
  AbsoluteMaxSearchTime :: int
  ExtraSearchTime :: int
  NodesBetweenPolls :: int
  Iteration :: int
  RootMoveNumber :: int
  ValueByIteration :: "int \<Rightarrow> Value"
  lastInfoTime :: int
  ShowCurrentLine :: bool
  printCurrentLine0 :: bool
  info_out :: "(int \<times> int \<times> int \<times> int) list"

text \<open>The first statements of \<open>think\<close>; \<open>now\<close> is \<open>get_system_time()\<close>.\<close>

definition think_init :: "int \<Rightarrow> bool \<Rightarrow> bool \<Rightarrow> int \<Rightarrow> int \<Rightarrow> int \<Rightarrow> search_globals \<Rightarrow> search_globals" where
  "think_init now infinite_search ponder maxDepth maxNodes maxTime g =
     g\<lparr> Idle := False, StopOnPonderhit := False, AbortSearch := False, Quit := False,
        FailLow := False, Problem := False,
        NodesSincePoll := 0,
        SearchStartTime := now,
        ExactMaxTime := maxTime,
        MaxDepth := maxDepth,
        MaxNodes := maxNodes,
        InfiniteSearch := infinite_search,
        PonderSearch := ponder,
        UseTimeManagement := (maxTime = 0 \<and> maxDepth = 0 \<and> maxNodes = 0 \<and> \<not> infinite_search) \<rparr>"

text \<open>
  The part of \<open>think\<close> from "Set thinking time" to the choice of
  \<open>NodesBetweenPolls\<close>; \<open>myTime\<close> and \<open>myIncrement\<close> are
  \<open>time[side_to_move]\<close> and \<open>increment[side_to_move]\<close>.
\<close>

definition think_set_time :: "int \<Rightarrow> int \<Rightarrow> int \<Rightarrow> bool \<Rightarrow> search_globals \<Rightarrow> search_globals" where
  "think_set_time myTime myIncrement movesToGo PonderingEnabled g =
     (let g1 =
        (if UseTimeManagement g then
           (let g' =
              (if movesToGo = 0 then
                 (if myIncrement \<noteq> 0
                  then g\<lparr> MaxSearchTime := c_div myTime 30 + myIncrement,
                          AbsoluteMaxSearchTime := max (c_div myTime 4) (myIncrement - 100) \<rparr>
                  else g\<lparr> MaxSearchTime := c_div myTime 30,
                          AbsoluteMaxSearchTime := c_div myTime 8 \<rparr>)
               else
                 (if movesToGo = 1
                  then g\<lparr> MaxSearchTime := c_div myTime 2,
                          AbsoluteMaxSearchTime :=
                            (if myTime > 3000 then myTime - 500 else c_div (myTime * 3) 4) \<rparr>
                  else g\<lparr> MaxSearchTime := c_div myTime (min movesToGo 20),
                          AbsoluteMaxSearchTime :=
                            min (c_div (4 * myTime) movesToGo) (c_div myTime 3) \<rparr>))
            in if PonderingEnabled
               then g'\<lparr> MaxSearchTime :=
                         min (MaxSearchTime g' + c_div (MaxSearchTime g') 4) (AbsoluteMaxSearchTime g') \<rparr>
               else g')
         else g)
      in g1\<lparr> NodesBetweenPolls :=
              (if MaxNodes g1 \<noteq> 0 then min (MaxNodes g1) 30000
               else if myTime \<noteq> 0 \<and> myTime < 1000 then 1000
               else if myTime \<noteq> 0 \<and> myTime < 5000 then 5000
               else 30000) \<rparr>)"

text \<open>\<open>ponderhit\<close>; \<open>t\<close> is \<open>current_search_time()\<close>.\<close>

definition ponderhit :: "int \<Rightarrow> search_globals \<Rightarrow> search_globals" where
  "ponderhit t g =
     (let g1 = g\<lparr> PonderSearch := False \<rparr>;
          stillAtFirstMove = (RootMoveNumber g1 = 1 \<and> \<not> FailLow g1
                              \<and> t > MaxSearchTime g1 + ExtraSearchTime g1);
          noMoreTime = (t > AbsoluteMaxSearchTime g1 \<or> stillAtFirstMove)
      in if Iteration g1 \<ge> 3 \<and> UseTimeManagement g1 \<and> (noMoreTime \<or> StopOnPonderhit g1)
         then g1\<lparr> AbortSearch := True \<rparr> else g1)"

text \<open>
  What \<open>poll\<close> finds on standard input: nothing pending (\<open>Bioskey()\<close> is false), a
  line, or end of input (\<open>getline\<close> fails and the command becomes \<open>quit\<close>).
\<close>

datatype stdin_poll = NoInput | Line string | Eof

text \<open>
  \<open>poll\<close>, given what standard input holds, the system time \<open>now\<close>, the value of
  \<open>nodes_searched()\<close> and the value of \<open>TT.full()\<close>.
\<close>

definition poll :: "stdin_poll \<Rightarrow> int \<Rightarrow> int \<Rightarrow> int \<Rightarrow> search_globals \<Rightarrow> search_globals" where
  "poll inp now nodes hashfull g =
     (let t = now - SearchStartTime g;
          command = (case inp of Line c \<Rightarrow> c | Eof \<Rightarrow> ''quit'' | NoInput \<Rightarrow> [])
      in
      if inp \<noteq> NoInput \<and> command = ''quit''
      then g\<lparr> AbortSearch := True, PonderSearch := False, Quit := True \<rparr>
      else
       (let g1 = (if inp = NoInput then g
                  else if command = ''stop'' then g\<lparr> AbortSearch := True, PonderSearch := False \<rparr>
                  else if command = ''ponderhit'' then ponderhit t g
                  else g);
            g2 = (if t < 1000 then g1\<lparr> lastInfoTime := 0 \<rparr>
                  else if lastInfoTime g1 > t then g1\<lparr> lastInfoTime := 0 \<rparr>
                  else if t - lastInfoTime g1 \<ge> 1000
                  then g1\<lparr> lastInfoTime := t,
                           info_out := info_out g1 @
                             [(nodes, (if t > 0 then c_div (nodes * 1000) t else 0), t, hashfull)],
                           printCurrentLine0 := (ShowCurrentLine g1 \<or> printCurrentLine0 g1) \<rparr>
                  else g1)
        in
        if PonderSearch g2 then g2
        else
         (let stillAtFirstMove = (RootMoveNumber g2 = 1 \<and> \<not> FailLow g2
                                  \<and> t > MaxSearchTime g2 + ExtraSearchTime g2);
              noMoreTime = (t > AbsoluteMaxSearchTime g2 \<or> stillAtFirstMove)
          in if (Iteration g2 \<ge> 3 \<and> UseTimeManagement g2 \<and> noMoreTime)
                \<or> (ExactMaxTime g2 \<noteq> 0 \<and> t \<ge> ExactMaxTime g2)
                \<or> (Iteration g2 \<ge> 3 \<and> MaxNodes g2 \<noteq> 0 \<and> nodes \<ge> MaxNodes g2)
             then g2\<lparr> AbortSearch := True \<rparr> else g2)))"

text \<open>Globals before the first search, to run \<open>think\<close> and \<open>poll\<close> on.\<close>

definition globals0 :: search_globals where
  "globals0 =
     \<lparr> Idle = True, StopOnPonderhit = False, AbortSearch = False, Quit = False,
       FailLow = False, Problem = False, NodesSincePoll = 0, SearchStartTime = 0,
       ExactMaxTime = 0, MaxDepth = 0, MaxNodes = 0, InfiniteSearch = False,
       PonderSearch = False, UseTimeManagement = False, MaxSearchTime = 0,
       AbsoluteMaxSearchTime = 0, ExtraSearchTime = 0, NodesBetweenPolls = 30000,
       Iteration = 0, RootMoveNumber = 0, ValueByIteration = (\<lambda>i. 0), lastInfoTime = 0, ShowCurrentLine = False,
       printCurrentLine0 = False, info_out = [] \<rparr>"

section \<open>What the search takes from outside search.cpp\<close>

text \<open>
  value.h, depth.h, move.h and search.h are not among the sources. The constants and inline
  functions the search uses from them, together with the tables and option values that
  search.cpp fills at startup (\<open>FutilityMargins\<close>, the reduction matrices, the extension
  options, the thread settings), are the fields of \<open>cfg\<close>; every search function takes
  a \<open>cfg\<close>. Arrays indexed by \<open>pvNode\<close> are functions of a \<open>bool\<close>.
\<close>

record cfg =
  OnePly :: Depth
  PLY_MAX :: int
  VALUE_MATE :: Value
  VALUE_INFINITE :: Value
  VALUE_KNOWN_WIN :: Value
  VALUE_NONE :: Value
  MOVE_NONE :: Move
  MOVE_NULL :: Move
  PawnValueMidgame :: Value
  PawnValueEndgame :: Value
  RookValueMidgame :: Value
  VALUE_TYPE_UPPER :: "32 word"
  VALUE_TYPE_LOWER :: "32 word"
  VALUE_TYPE_EXACT :: "32 word"
  VALUE_TYPE_EVAL :: "32 word"
  VALUE_TYPE_EV_UP :: "32 word"
  VALUE_TYPE_EV_LO :: "32 word"
  value_from_tt :: "Value \<Rightarrow> int \<Rightarrow> Value"
  value_to_tt :: "Value \<Rightarrow> int \<Rightarrow> Value"
  is_lower_bound :: "32 word \<Rightarrow> bool"
  is_upper_bound :: "32 word \<Rightarrow> bool"
  FutilityMargins :: "int \<Rightarrow> Value"
  PVReductionMatrix :: "int \<Rightarrow> int \<Rightarrow> Depth"
  NonPVReductionMatrix :: "int \<Rightarrow> int \<Rightarrow> Depth"
  ThreatDepth :: Depth
  CheckExtension :: "bool \<Rightarrow> Depth"
  SingleEvasionExtension :: "bool \<Rightarrow> Depth"
  PawnPushTo7thExtension :: "bool \<Rightarrow> Depth"
  PassedPawnExtension :: "bool \<Rightarrow> Depth"
  PawnEndgameExtension :: "bool \<Rightarrow> Depth"
  MateThreatExtension :: "bool \<Rightarrow> Depth"
  ActiveThreads :: int
  MinimumSplitDepth :: Depth

text \<open>Modelled from the spec: \<open>VALUE_DRAW = 0\<close> (value.h is missing).\<close>

definition VALUE_DRAW :: Value where
  "VALUE_DRAW = 0"

text \<open>
  Modelled from the spec: value.h is missing; a forced mate in \<open>ply\<close> is
  \<open>VALUE_MATE - ply\<close>.
\<close>

definition value_mate_in :: "cfg \<Rightarrow> int \<Rightarrow> Value" where
  "value_mate_in c ply = VALUE_MATE c - ply"

text \<open>
  Modelled from the spec: value.h is missing; being mated is \<open>-VALUE_MATE\<close> adjusted by
  the ply.
\<close>

definition value_mated_in :: "cfg \<Rightarrow> int \<Rightarrow> Value" where
  "value_mated_in c ply = - VALUE_MATE c + ply"

text \<open>The constants search.cpp defines itself.\<close>

definition IIDMargin :: Value where "IIDMargin = 0x100"
definition NullMoveMargin :: Value where "NullMoveMargin = 0x200"
definition SingleReplyMargin :: Value where "SingleReplyMargin = 0x20"
definition FutilityMarginQS :: Value where "FutilityMarginQS = 0x80"
definition IncrementalFutilityMargin :: Value where "IncrementalFutilityMargin = 0x8"
definition ProblemMargin :: Value where "ProblemMargin = 0x28"
definition UseIIDAtPVNodes :: bool where "UseIIDAtPVNodes = True"
definition UseIIDAtNonPVNodes :: bool where "UseIIDAtNonPVNodes = True"

definition RazorDepth :: "cfg \<Rightarrow> Depth" where
  "RazorDepth c = 4 * OnePly c"

definition SelectiveDepth :: "cfg \<Rightarrow> Depth" where
  "SelectiveDepth c = 7 * OnePly c"

definition pv_reduction :: "cfg \<Rightarrow> Depth \<Rightarrow> int \<Rightarrow> Depth" where
  "pv_reduction c d mn = PVReductionMatrix c (min (c_div d 2) 63) (min mn 63)"

definition nonpv_reduction :: "cfg \<Rightarrow> Depth \<Rightarrow> int \<Rightarrow> Depth" where
  "nonpv_reduction c d mn = NonPVReductionMatrix c (min (c_div d 2) 63) (min mn 63)"

section \<open>Helpers of the search (search.cpp)\<close>

definition ok_to_use_TT :: "cfg \<Rightarrow> TTEntry \<Rightarrow> Depth \<Rightarrow> Value \<Rightarrow> int \<Rightarrow> bool" where
  "ok_to_use_TT c tte depth beta ply =
     (let v = value_from_tt c (tte_value tte) ply
      in (tte_depth tte \<ge> depth
          \<or> v \<ge> max (value_mate_in c (PLY_MAX c)) beta
          \<or> v < min (value_mated_in c (PLY_MAX c)) beta)
         \<and> ((is_lower_bound c (tte_type tte) \<and> v \<ge> beta)
              \<or> (is_upper_bound c (tte_type tte) \<and> v < beta)))"

definition refine_eval :: "cfg \<Rightarrow> TTEntry option \<Rightarrow> Value \<Rightarrow> int \<Rightarrow> Value" where
  "refine_eval c tte defaultEval ply =
     (case tte of
        None \<Rightarrow> defaultEval
      | Some t \<Rightarrow>
          (let v = value_from_tt c (tte_value t) ply
           in if (is_lower_bound c (tte_type t) \<and> v \<ge> defaultEval)
                 \<or> (is_upper_bound c (tte_type t) \<and> v < defaultEval)
              then v else defaultEval))"

definition value_is_mate :: "cfg \<Rightarrow> Value \<Rightarrow> bool" where
  "value_is_mate c v =
     (v \<le> value_mated_in c (PLY_MAX c) \<or> v \<ge> value_mate_in c (PLY_MAX c))"

definition move_is_killer :: "Move \<Rightarrow> Move list \<Rightarrow> bool" where
  "move_is_killer m killers = list_ex (\<lambda>k. k = m) killers"

section \<open>The state the search works on\<close>

text \<open>
  One \<open>SearchStack\<close> per ply, as search.cpp uses it (the \<open>evalInfo\<close> pointer is
  left out).
\<close>

record SearchStack =
  pv :: "int \<Rightarrow> Move"
  currentMove :: Move
  threatMove :: Move
  mateKiller :: Move
  reduction :: Depth
  eval :: Value
  killers :: "Move list"

definition SearchStack_init :: "cfg \<Rightarrow> int \<Rightarrow> SearchStack \<Rightarrow> SearchStack" where
  "SearchStack_init c ply s =
     s\<lparr> pv := (pv s)(ply := MOVE_NONE c, ply + 1 := MOVE_NONE c),
        currentMove := MOVE_NONE c, threatMove := MOVE_NONE c,
        reduction := 0, eval := VALUE_NONE c \<rparr>"

definition SearchStack_initKillers :: "cfg \<Rightarrow> SearchStack \<Rightarrow> SearchStack" where
  "SearchStack_initKillers c s =
     s\<lparr> mateKiller := MOVE_NONE c, killers := map (\<lambda>k. MOVE_NONE c) (killers s) \<rparr>"

text \<open>
  The world of a search thread: the search stack \<open>ss\<close>, the globals of search.cpp, and
  in \<open>ext\<close> everything whose code is not among the sources: the position, the
  transposition table, the history and gains tables, the thread records, the clock and
  standard input.
\<close>

record 'x world =
  ss :: "int \<Rightarrow> SearchStack"
  glob :: search_globals
  ext :: 'x

text \<open>
  The operations on \<open>ext\<close> that the search calls. Observations of the position at hand
  take \<open>'x\<close>; those about a move take the move first. \<open>e_tt_retrieve\<close> and
  \<open>e_tt_store\<close> stand for \<open>TT.retrieve(posKey)\<close> and \<open>TT.store(posKey, ..)\<close> at
  the position at hand, their first argument telling whether \<open>posKey\<close> is the exclusion
  key. \<open>e_evaluate\<close> returns the value of \<open>evaluate(pos, ei, threadID)\<close> and the
  \<open>ei.futilityMargin[side to move]\<close> it leaves; \<open>e_ei_default\<close> is that field of an
  \<open>EvalInfo\<close> on which \<open>evaluate\<close> was not called. \<open>e_moves\<close> is the sequence of
  moves that \<open>get_next_move()\<close> hands out for a \<open>MovePicker\<close> built with the given
  \<open>ttMove\<close>, depth and ply (the \<open>bool\<close> tells whether \<open>&ss[ply]\<close> is passed).
  \<open>e_split\<close> is \<open>idle_thread_exists(threadID) && split(..)\<close>, given the thread, the
  node kind, depth, ply and \<open>moveCount\<close>: \<open>None\<close> where it does not split, and
  otherwise what \<open>split\<close> writes back through its pointers to \<open>alpha\<close>, \<open>beta\<close>
  and \<open>bestValue\<close> once the threads of the split point have finished.
\<close>

record 'x env =
  e_is_draw :: "'x \<Rightarrow> bool"
  e_is_check :: "'x \<Rightarrow> bool"
  e_has_mate_threat :: "'x \<Rightarrow> bool"
  e_non_pawn_material_stm :: "'x \<Rightarrow> Value"
  e_non_pawn_material_both :: "'x \<Rightarrow> Value"
  e_has_pawn_on_7th :: "'x \<Rightarrow> bool"
  e_can_castle :: "'x \<Rightarrow> bool"
  e_captured_piece_none :: "'x \<Rightarrow> bool"
  e_number_of_evasions :: "'x \<Rightarrow> int"
  e_move_is_check :: "Move \<Rightarrow> 'x \<Rightarrow> bool"
  e_move_is_capture_or_promotion :: "Move \<Rightarrow> 'x \<Rightarrow> bool"
  e_move_is_capture :: "Move \<Rightarrow> 'x \<Rightarrow> bool"
  e_move_is_castle :: "Move \<Rightarrow> bool"
  e_move_is_promotion :: "Move \<Rightarrow> bool"
  e_move_is_ep :: "Move \<Rightarrow> bool"
  e_move_is_passed_pawn_push :: "Move \<Rightarrow> 'x \<Rightarrow> bool"
  e_see_sign :: "Move \<Rightarrow> 'x \<Rightarrow> int"
  e_from_is_pawn :: "Move \<Rightarrow> 'x \<Rightarrow> bool"
  e_from_is_king :: "Move \<Rightarrow> 'x \<Rightarrow> bool"
  e_to_is_pawn :: "Move \<Rightarrow> 'x \<Rightarrow> bool"
  e_to_on_rank_7 :: "Move \<Rightarrow> 'x \<Rightarrow> bool"
  e_pawn_is_passed :: "Move \<Rightarrow> 'x \<Rightarrow> bool"
  e_midgame_value_on_to :: "Move \<Rightarrow> 'x \<Rightarrow> Value"
  e_endgame_value_on_to :: "Move \<Rightarrow> 'x \<Rightarrow> Value"
  e_ok_to_prune :: "Move \<Rightarrow> Move \<Rightarrow> 'x \<Rightarrow> bool"
  e_connected_moves :: "Move \<Rightarrow> Move \<Rightarrow> 'x \<Rightarrow> bool"
  e_gain :: "Move \<Rightarrow> 'x \<Rightarrow> Value"
  e_set_gain :: "Move \<Rightarrow> Value \<Rightarrow> 'x \<Rightarrow> 'x"
  e_H_success :: "Move \<Rightarrow> Depth \<Rightarrow> 'x \<Rightarrow> 'x"
  e_H_failure :: "Move \<Rightarrow> Depth \<Rightarrow> 'x \<Rightarrow> 'x"
  e_BetaCounter_add :: "Depth \<Rightarrow> int \<Rightarrow> 'x \<Rightarrow> 'x"
  e_do_move :: "Move \<Rightarrow> 'x \<Rightarrow> 'x"
  e_undo_move :: "Move \<Rightarrow> 'x \<Rightarrow> 'x"
  e_do_null_move :: "'x \<Rightarrow> 'x"
  e_undo_null_move :: "'x \<Rightarrow> 'x"
  e_tt_retrieve :: "bool \<Rightarrow> 'x \<Rightarrow> TTEntry option"
  e_tt_store :: "bool \<Rightarrow> Value \<Rightarrow> 32 word \<Rightarrow> Depth \<Rightarrow> Move \<Rightarrow> 'x \<Rightarrow> 'x"
  e_evaluate :: "int \<Rightarrow> 'x \<Rightarrow> Value \<times> Value"
  e_ei_default :: "'x \<Rightarrow> Value"
  e_moves :: "Move \<Rightarrow> Depth \<Rightarrow> int \<Rightarrow> bool \<Rightarrow> 'x world \<Rightarrow> Move list"
  e_count_node :: "int \<Rightarrow> 'x \<Rightarrow> 'x"
  e_thread_should_stop :: "int \<Rightarrow> 'x \<Rightarrow> bool"
  e_printCurrentLine :: "int \<Rightarrow> 'x \<Rightarrow> bool"
  e_print_current_line :: "int \<Rightarrow> int \<Rightarrow> 'x world \<Rightarrow> 'x world"
  e_split :: "int \<Rightarrow> bool \<Rightarrow> Depth \<Rightarrow> int \<Rightarrow> int \<Rightarrow> Value \<times> Value \<times> Value \<Rightarrow> 'x world
              \<Rightarrow> ((Value \<times> Value \<times> Value) \<times> 'x world) option"
  e_stdin :: "'x \<Rightarrow> stdin_poll \<times> 'x"
  e_now :: "'x \<Rightarrow> int"
  e_nodes_searched :: "'x \<Rightarrow> int"
  e_TT_full :: "'x \<Rightarrow> int"

text \<open>
  The three search functions call each other; a node is defined over the functions it
  calls, which are the fields of \<open>rec\<close>. A call that does not return is \<open>None\<close>.
  The arguments are those of the C++ functions without \<open>pos\<close> and \<open>ss\<close>, which are in
  the world.
\<close>

record 'x rec =
  r_search_pv :: "Value \<Rightarrow> Value \<Rightarrow> Depth \<Rightarrow> int \<Rightarrow> int \<Rightarrow> 'x world \<Rightarrow> (Value \<times> 'x world) option"
  r_search :: "Value \<Rightarrow> Depth \<Rightarrow> int \<Rightarrow> bool \<Rightarrow> int \<Rightarrow> Move \<Rightarrow> 'x world
               \<Rightarrow> (Value \<times> 'x world) option"
  r_qsearch :: "Value \<Rightarrow> Value \<Rightarrow> Depth \<Rightarrow> int \<Rightarrow> int \<Rightarrow> 'x world \<Rightarrow> (Value \<times> 'x world) option"

text \<open>
  Every \<open>return\<close> of a search function is tagged with the place it stands at, so that
  a statement can tell two returns of the same value apart.
\<close>

datatype exit_site =
    ViaQsearch | Aborted | Draw | MateDistance | TTCutoff | StaticNullMove | NullMoveCutoff
  | ThreatFailLow | Razoring | StandPat | NoMoveSearched | AbortedAfterLoop | AfterLoop

section \<open>Bookkeeping of a node (search.cpp)\<close>

text \<open>\<open>upd_ss ply f\<close> is an assignment to fields of \<open>ss[ply]\<close>.\<close>

definition upd_ss :: "int \<Rightarrow> (SearchStack \<Rightarrow> SearchStack) \<Rightarrow> 'x world \<Rightarrow> 'x world" where
  "upd_ss ply f w = w\<lparr> ss := (ss w)(ply := f (ss w ply)) \<rparr>"

definition upd_ext :: "('x \<Rightarrow> 'x) \<Rightarrow> 'x world \<Rightarrow> 'x world" where
  "upd_ext f w = w\<lparr> ext := f (ext w) \<rparr>"

text \<open>
  \<open>init_node\<close>: count the node, poll every \<open>NodesBetweenPolls\<close> nodes on thread 0,
  reset \<open>ss[ply]\<close> and the killers of \<open>ss[ply + 2]\<close>, print the current line when
  asked to. \<open>Threads[0].printCurrentLine\<close> is the global \<open>printCurrentLine0\<close> that
  \<open>poll\<close> sets; the flags of the other threads and \<open>print_current_line\<close> work on
  thread records that are not among the sources.
\<close>

definition init_node :: "cfg \<Rightarrow> 'x env \<Rightarrow> int \<Rightarrow> int \<Rightarrow> 'x world \<Rightarrow> 'x world" where
  "init_node c e ply threadID w =
     (let w1 = upd_ext (e_count_node e threadID) w;
          w2 = (if threadID = 0 then
                  (let g = (glob w1)\<lparr> NodesSincePoll := NodesSincePoll (glob w1) + 1 \<rparr>
                   in if NodesSincePoll g \<ge> NodesBetweenPolls g
                      then (let (inp, x) = e_stdin e (ext w1);
                                g' = poll inp (e_now e x) (e_nodes_searched e x) (e_TT_full e x) g
                            in w1\<lparr> glob := g'\<lparr> NodesSincePoll := 0 \<rparr>, ext := x \<rparr>)
                      else w1\<lparr> glob := g \<rparr>)
                else w1);
          w3 = upd_ss (ply + 2) (SearchStack_initKillers c) (upd_ss ply (SearchStack_init c ply) w2)
      in if (if threadID = 0 then printCurrentLine0 (glob w3)
             else e_printCurrentLine e threadID (ext w3))
         then e_print_current_line e ply threadID w3 else w3)"

text \<open>
  \<open>update_pv\<close>: \<open>pv_copy\<close> is its loop, copying \<open>ss[ply + 1].pv\<close> from index
  \<open>p\<close> up to the first \<open>MOVE_NONE\<close>; the arrays have \<open>PLY_MAX + 2\<close> entries, where
  the copy stops at the latest.
\<close>

function pv_copy :: "cfg \<Rightarrow> (int \<Rightarrow> Move) \<Rightarrow> (int \<Rightarrow> Move) \<Rightarrow> int \<Rightarrow> (int \<Rightarrow> Move) \<times> int" where
  "pv_copy c src dst p =
     (if p < PLY_MAX c + 2 \<and> src p \<noteq> MOVE_NONE c
      then pv_copy c src (dst(p := src p)) (p + 1)
      else (dst, p))"
  by pat_completeness auto
termination
  by (relation "measure (\<lambda>(c, src, dst, p). nat (PLY_MAX c + 2 - p))") auto

definition update_pv :: "cfg \<Rightarrow> int \<Rightarrow> 'x world \<Rightarrow> 'x world" where
  "update_pv c ply w =
     (let pv0 = (pv (ss w ply))(ply := currentMove (ss w ply));
          (pv1, p) = pv_copy c (pv (ss w (ply + 1))) pv0 (ply + 1)
      in upd_ss ply (\<lambda>s. s\<lparr> pv := pv1(p := MOVE_NONE c) \<rparr>) w)"

definition update_gains :: "cfg \<Rightarrow> 'x env \<Rightarrow> Move \<Rightarrow> Value \<Rightarrow> Value \<Rightarrow> 'x \<Rightarrow> 'x" where
  "update_gains c e m before after x =
     (if m \<noteq> MOVE_NULL c \<and> before \<noteq> VALUE_NONE c \<and> after \<noteq> VALUE_NONE c
         \<and> e_captured_piece_none e x \<and> \<not> e_move_is_castle e m \<and> \<not> e_move_is_promotion e m
      then e_set_gain e m (- (before + after)) x
      else x)"

text \<open>
  \<open>update_history\<close>; the moves searched are \<open>movesSearched[0 .. moveCount - 1]\<close>, the
  last of them the move that cut off.
\<close>

definition update_history :: "'x env \<Rightarrow> Move \<Rightarrow> Depth \<Rightarrow> Move list \<Rightarrow> int \<Rightarrow> 'x \<Rightarrow> 'x" where
  "update_history e move depth movesSearched moveCount x =
     foldl (\<lambda>x m. if \<not> e_move_is_capture_or_promotion e m x then e_H_failure e m depth x else x)
       (e_H_success e move depth x)
       (take (nat (moveCount - 1)) movesSearched)"

text \<open>\<open>extension\<close> returns the extension and the \<open>dangerous\<close> flag.\<close>

definition extension :: "cfg \<Rightarrow> 'x env \<Rightarrow> 'x \<Rightarrow> Move \<Rightarrow> bool \<Rightarrow> bool \<Rightarrow> bool \<Rightarrow> bool \<Rightarrow> bool \<Rightarrow> Depth \<times> bool" where
  "extension c e x m pvNode captureOrPromotion moveIsCheck singleEvasion mateThreat =
     (let dangerous0 = (moveIsCheck \<or> singleEvasion \<or> mateThreat);
          r0 = (if dangerous0
                then (if moveIsCheck then CheckExtension c pvNode else 0)
                     + (if singleEvasion then SingleEvasionExtension c pvNode else 0)
                     + (if mateThreat then MateThreatExtension c pvNode else 0)
                else 0);
          pawn = e_from_is_pawn e m x;
          to7 = (pawn \<and> e_to_on_rank_7 e m x);
          passed = (pawn \<and> e_pawn_is_passed e m x);
          r1 = r0 + (if to7 then PawnPushTo7thExtension c pvNode else 0)
                  + (if passed then PassedPawnExtension c pvNode else 0);
          pawnEndgame = (captureOrPromotion \<and> \<not> e_to_is_pawn e m x
                         \<and> e_non_pawn_material_both e x - e_midgame_value_on_to e m x = 0
                         \<and> \<not> e_move_is_promotion e m \<and> \<not> e_move_is_ep e m);
          r2 = r1 + (if pawnEndgame then PawnEndgameExtension c pvNode else 0);
          goodCapture = (pvNode \<and> captureOrPromotion \<and> \<not> e_to_is_pawn e m x
                         \<and> e_see_sign e m x \<ge> 0);
          r3 = r2 + (if goodCapture then c_div (OnePly c) 2 else 0)
      in (min r3 (OnePly c), dangerous0 \<or> to7 \<or> passed \<or> pawnEndgame \<or> goodCapture))"

text \<open>
  The move loops: \<open>test\<close> is the part of the loop condition that looks at the state,
  the list holds the moves the picker hands out, \<open>body\<close> returns whether it left the loop
  by \<open>break\<close>.
\<close>

fun move_loop :: "('s \<Rightarrow> bool) \<Rightarrow> (Move \<Rightarrow> 's \<Rightarrow> (bool \<times> 's) option) \<Rightarrow> Move list \<Rightarrow> 's \<Rightarrow> 's option" where
  "move_loop test body [] st = Some st"
| "move_loop test body (m # ms) st =
     (if test st
      then (case body m st of
              None \<Rightarrow> None
            | Some (brk, st') \<Rightarrow> if brk then Some st' else move_loop test body ms st')
      else Some st)"

section \<open>Quiescence search (search.cpp, qsearch)\<close>

text \<open>The variables the move loop of \<open>qsearch\<close> changes.\<close>

record 'x qloop =
  ql_alpha :: Value
  ql_bestValue :: Value
  ql_moveCount :: int
  ql_w :: "'x world"

text \<open>The probed entry's move, or \<open>MOVE_NONE\<close>.\<close>

definition tt_move_of :: "cfg \<Rightarrow> TTEntry option \<Rightarrow> Move" where
  "tt_move_of c tte = (case tte of Some t \<Rightarrow> uint (tte_move t) | None \<Rightarrow> MOVE_NONE c)"

text \<open>\<open>tte && (tte->type() & VALUE_TYPE_EVAL)\<close>.\<close>

definition tt_is_eval :: "cfg \<Rightarrow> TTEntry option \<Rightarrow> bool" where
  "tt_is_eval c tte =
     (case tte of Some t \<Rightarrow> tte_type t AND VALUE_TYPE_EVAL c \<noteq> 0 | None \<Rightarrow> False)"

text \<open>The body of the move loop of \<open>qsearch\<close> for one move.\<close>

definition qsearch_move ::
  "cfg \<Rightarrow> 'x env \<Rightarrow> 'x rec \<Rightarrow> Value \<Rightarrow> Depth \<Rightarrow> int \<Rightarrow> int \<Rightarrow> bool \<Rightarrow> bool \<Rightarrow> Move \<Rightarrow> bool \<Rightarrow> Value
   \<Rightarrow> Move \<Rightarrow> 'x qloop \<Rightarrow> (bool \<times> 'x qloop) option" where
  "qsearch_move c e r beta depth ply threadID pvNode isCheck ttMove enoughMaterial futilityBase
     move st =
     (let x = ext (ql_w st);
          moveIsCheck = e_move_is_check e move x;
          st1 = st\<lparr> ql_moveCount := ql_moveCount st + 1,
                    ql_w := upd_ss ply (\<lambda>s. s\<lparr> currentMove := move \<rparr>) (ql_w st) \<rparr>;
          futilityValue = futilityBase + e_endgame_value_on_to e move x
                          + (if e_move_is_ep e move then PawnValueEndgame c else 0)
      in
      if enoughMaterial \<and> \<not> isCheck \<and> \<not> pvNode \<and> \<not> moveIsCheck \<and> move \<noteq> ttMove
         \<and> \<not> e_move_is_promotion e move \<and> \<not> e_move_is_passed_pawn_push e move x
         \<and> futilityValue < ql_alpha st1
      then Some (False, if futilityValue > ql_bestValue st1
                        then st1\<lparr> ql_bestValue := futilityValue \<rparr> else st1)
      else
       (let evasionPrunable = (isCheck \<and> ql_bestValue st1 \<noteq> - VALUE_INFINITE c
                               \<and> \<not> e_move_is_capture e move x \<and> \<not> e_from_is_king e move x
                               \<and> \<not> e_can_castle e x)
        in
        if (\<not> isCheck \<or> evasionPrunable) \<and> move \<noteq> ttMove \<and> \<not> e_move_is_promotion e move
           \<and> e_see_sign e move x < 0
        then Some (False, st1)
        else
         (case r_qsearch r (- beta) (- ql_alpha st1) (depth - OnePly c) (ply + 1) threadID
                 (upd_ext (e_do_move e move) (ql_w st1)) of
            None \<Rightarrow> None
          | Some (v, w') \<Rightarrow>
             (let value = - v;
                  w2 = upd_ext (e_undo_move e move) w'
              in Some (False,
                   if value > ql_bestValue st1
                   then (if value > ql_alpha st1
                         then st1\<lparr> ql_bestValue := value, ql_alpha := value,
                                   ql_w := update_pv c ply w2 \<rparr>
                         else st1\<lparr> ql_bestValue := value, ql_w := w2 \<rparr>)
                   else st1\<lparr> ql_w := w2 \<rparr>)))))"

text \<open>\<open>qsearch\<close> after its move loop.\<close>

definition qsearch_epilogue ::
  "cfg \<Rightarrow> 'x env \<Rightarrow> Value \<Rightarrow> Value \<Rightarrow> Depth \<Rightarrow> int \<Rightarrow> Value \<Rightarrow> Value \<Rightarrow> 'x qloop
   \<Rightarrow> exit_site \<times> Value \<times> 'x world" where
  "qsearch_epilogue c e oldAlpha beta depth ply staticValue eiMargin st =
     (let w = ql_w st; bestValue = ql_bestValue st
      in
      if ql_moveCount st = 0 \<and> e_is_check e (ext w)
      then (NoMoveSearched, value_mated_in c ply, w)
      else
       (let d = (if depth = 0 then 0 else - 1);
            move = pv (ss w ply) ply
        in
        if bestValue \<le> oldAlpha
        then (AfterLoop, bestValue,
              upd_ext (e_tt_store e False (value_to_tt c bestValue ply)
                         (if bestValue = staticValue \<and> eiMargin = 0
                          then VALUE_TYPE_EV_UP c else VALUE_TYPE_UPPER c)
                         d (MOVE_NONE c)) w)
        else if bestValue \<ge> beta
        then (AfterLoop, bestValue,
              (let w1 = upd_ext (e_tt_store e False (value_to_tt c bestValue ply)
                                   (VALUE_TYPE_LOWER c) d move) w
               in if \<not> e_move_is_capture_or_promotion e move (ext w1)
                  then upd_ss ply (\<lambda>s. s\<lparr> killers := update_killers move (killers s) \<rparr>) w1
                  else w1))
        else (AfterLoop, bestValue,
              upd_ext (e_tt_store e False (value_to_tt c bestValue ply)
                         (VALUE_TYPE_EXACT c) d move) w)))"

definition qsearch ::
  "cfg \<Rightarrow> 'x env \<Rightarrow> 'x rec \<Rightarrow> Value \<Rightarrow> Value \<Rightarrow> Depth \<Rightarrow> int \<Rightarrow> int \<Rightarrow> 'x world
   \<Rightarrow> (exit_site \<times> Value \<times> 'x world) option" where
  "qsearch c e r alpha beta depth ply threadID w0 =
     (let pvNode = (beta - alpha \<noteq> 1);
          oldAlpha = alpha;
          w = init_node c e ply threadID w0
      in
      if AbortSearch (glob w) \<or> e_thread_should_stop e threadID (ext w)
      then Some (Aborted, 0, w)
      else if e_is_draw e (ext w) \<or> ply \<ge> PLY_MAX c - 1
      then Some (Draw, VALUE_DRAW, w)
      else
       (let tte = e_tt_retrieve e False (ext w);
            ttMove = tt_move_of c tte
        in
        if \<not> pvNode \<and> (case tte of Some t \<Rightarrow> ok_to_use_TT c t depth beta ply | None \<Rightarrow> False)
        then Some (TTCutoff, value_from_tt c (tte_value (the tte)) ply,
                   upd_ss ply (\<lambda>s. s\<lparr> currentMove := ttMove \<rparr>) w)
        else
         (let isCheck = e_is_check e (ext w);
              (staticValue, eiMargin) =
                 (if isCheck then (- VALUE_INFINITE c, e_ei_default e (ext w))
                  else if tt_is_eval c tte
                  then (value_from_tt c (tte_value (the tte)) ply, e_ei_default e (ext w))
                  else e_evaluate e threadID (ext w));
              w1 = (if \<not> isCheck
                    then (let w' = upd_ss ply (\<lambda>s. s\<lparr> eval := staticValue \<rparr>) w
                          in upd_ext (update_gains c e (currentMove (ss w' (ply - 1)))
                                        (eval (ss w' (ply - 1))) (eval (ss w' ply))) w')
                    else w);
              bestValue = staticValue
          in
          if bestValue \<ge> beta
          then Some (StandPat, bestValue,
                     if \<not> isCheck \<and> tte = None \<and> eiMargin = 0
                     then upd_ext (e_tt_store e False (value_to_tt c bestValue ply)
                                     (VALUE_TYPE_EV_LO c) (- 127 * OnePly c) (MOVE_NONE c)) w1
                     else w1)
          else
           (let alpha1 = (if bestValue > alpha then bestValue else alpha);
                deepChecks = (depth = - OnePly c
                              \<and> staticValue \<ge> beta - c_div (PawnValueMidgame c) 8);
                moves = e_moves e ttMove (if deepChecks then 0 else depth) ply False w1;
                enoughMaterial = (e_non_pawn_material_stm e (ext w1) > RookValueMidgame c);
                futilityBase = staticValue + FutilityMarginQS + eiMargin
            in
            (case move_loop (\<lambda>st. ql_alpha st < beta)
                    (qsearch_move c e r beta depth ply threadID pvNode isCheck ttMove
                       enoughMaterial futilityBase)
                    moves
                    \<lparr> ql_alpha = alpha1, ql_bestValue = bestValue, ql_moveCount = 0,
                      ql_w = w1 \<rparr> of
               None \<Rightarrow> None
             | Some st \<Rightarrow>
                 Some (qsearch_epilogue c e oldAlpha beta depth ply staticValue eiMargin st))))))"

section \<open>Zero-window search (search.cpp, search)\<close>

datatype ('r, 'k) flow = Return 'r | Continue 'k

text \<open>The variables the move loop of \<open>search\<close> changes.\<close>

record 'x sloop =
  sl_beta :: Value
  sl_bestValue :: Value
  sl_moveCount :: int
  sl_movesSearched :: "Move list"
  sl_w :: "'x world"

text \<open>What the part of \<open>search\<close> before the move loop hands to the loop.\<close>

record 'x sentry =
  se_tte :: "TTEntry option"
  se_ttMove :: Move
  se_isCheck :: bool
  se_mateThreat :: bool
  se_futilityValue :: Value
  se_w :: "'x world"

text \<open>
  The null move block of \<open>search\<close>, entered when its condition holds: either a
  \<open>return\<close>, or the search goes on with \<open>mateThreat\<close> set or not.
\<close>

definition search_null_move ::
  "cfg \<Rightarrow> 'x env \<Rightarrow> 'x rec \<Rightarrow> Value \<Rightarrow> Depth \<Rightarrow> int \<Rightarrow> int \<Rightarrow> Value \<Rightarrow> 'x world
   \<Rightarrow> (exit_site \<times> Value \<times> 'x world, bool \<times> 'x world) flow option" where
  "search_null_move c e r beta depth ply threadID staticValue w =
     (let w1 = upd_ext (e_do_null_move e) (upd_ss ply (\<lambda>s. s\<lparr> currentMove := MOVE_NULL c \<rparr>) w);
          R0 = 3 + (if depth \<ge> 5 * OnePly c then c_div depth 8 else 0);
          R = (if staticValue - beta > PawnValueMidgame c then R0 + 1 else R0)
      in
      case r_search r (- (beta - 1)) (depth - R * OnePly c) (ply + 1) False threadID (MOVE_NONE c) w1 of
        None \<Rightarrow> None
      | Some (v, w2) \<Rightarrow>
         (let nullValue = - v;
              w3 = upd_ext (e_undo_null_move e) w2
          in
          if nullValue \<ge> beta
          then
           (if depth < 6 * OnePly c
            then Some (Return (NullMoveCutoff, beta, w3))
            else
             (case r_search r beta (depth - 5 * OnePly c) ply False threadID (MOVE_NONE c) w3 of
                None \<Rightarrow> None
              | Some (v', w4) \<Rightarrow>
                  if v' \<ge> beta then Some (Return (NullMoveCutoff, beta, w4))
                  else Some (Continue (False, w4))))
          else
           (let mateThreat = (nullValue = value_mated_in c (ply + 2));
                w4 = upd_ss ply (\<lambda>s. s\<lparr> threatMove := currentMove (ss w3 (ply + 1)) \<rparr>) w3
            in
            if depth < ThreatDepth c \<and> reduction (ss w4 (ply - 1)) \<noteq> 0
               \<and> e_connected_moves e (currentMove (ss w4 (ply - 1))) (threatMove (ss w4 ply)) (ext w4)
            then Some (Return (ThreatFailLow, beta - 1, w4))
            else Some (Continue (mateThreat, w4)))))"

text \<open>Internal iterative deepening, the last step before the move loop.\<close>

definition search_iid ::
  "cfg \<Rightarrow> 'x env \<Rightarrow> 'x rec \<Rightarrow> Value \<Rightarrow> Depth \<Rightarrow> int \<Rightarrow> int \<Rightarrow> TTEntry option \<Rightarrow> Move \<Rightarrow> bool
   \<Rightarrow> Value \<Rightarrow> bool \<Rightarrow> 'x world
   \<Rightarrow> (exit_site \<times> Value \<times> 'x world, 'x sentry) flow option" where
  "search_iid c e r beta depth ply threadID tte ttMove isCheck futilityValue mateThreat w =
     (if UseIIDAtNonPVNodes \<and> ttMove = MOVE_NONE c \<and> depth \<ge> 8 * OnePly c \<and> \<not> isCheck
         \<and> eval (ss w ply) \<ge> beta - IIDMargin
      then
       (case r_search r beta (min (c_div depth 2) (depth - 2 * OnePly c)) ply False threadID
               (MOVE_NONE c) w of
          None \<Rightarrow> None
        | Some (v, w') \<Rightarrow>
            Some (Continue \<lparr> se_tte = e_tt_retrieve e False (ext w'),
                                 se_ttMove = pv (ss w' ply) ply,
                                 se_isCheck = isCheck, se_mateThreat = mateThreat,
                                 se_futilityValue = futilityValue, se_w = w' \<rparr>))
      else Some (Continue \<lparr> se_tte = tte, se_ttMove = ttMove, se_isCheck = isCheck,
                               se_mateThreat = mateThreat, se_futilityValue = futilityValue,
                               se_w = w \<rparr>))"

text \<open>
  \<open>search\<close> from the static evaluation to the construction of the move picker, where
  the table gave no cutoff: static evaluation, static null move pruning, null move search,
  razoring and internal iterative deepening. \<open>tte\<close> and \<open>ttMove\<close> are the probed entry
  and its move.
\<close>

definition search_pruning ::
  "cfg \<Rightarrow> 'x env \<Rightarrow> 'x rec \<Rightarrow> Value \<Rightarrow> Depth \<Rightarrow> int \<Rightarrow> bool \<Rightarrow> int \<Rightarrow> TTEntry option \<Rightarrow> Move
   \<Rightarrow> 'x world \<Rightarrow> (exit_site \<times> Value \<times> 'x world, 'x sentry) flow option" where
  "search_pruning c e r beta depth ply allowNullmove threadID tte ttMove w =
     (let isCheck = e_is_check e (ext w);
          (staticValue, futilityValue, w1) =
             (if \<not> isCheck
              then
               (let sv = (if tt_is_eval c tte then value_from_tt c (tte_value (the tte)) ply
                          else fst (e_evaluate e threadID (ext w)));
                    w' = upd_ss ply (\<lambda>s. s\<lparr> eval := sv \<rparr>) w
                in (refine_eval c tte sv ply,
                    sv + FutilityMargins c depth,
                    upd_ext (update_gains c e (currentMove (ss w' (ply - 1)))
                               (eval (ss w' (ply - 1))) (eval (ss w' ply))) w'))
              else (- VALUE_INFINITE c, - VALUE_INFINITE c, w))
      in
      if \<not> isCheck \<and> allowNullmove \<and> depth < RazorDepth c
         \<and> staticValue - FutilityMargins c depth \<ge> beta
      then Some (Return (StaticNullMove, staticValue - FutilityMargins c depth, w1))
      else if allowNullmove \<and> depth > OnePly c \<and> \<not> isCheck \<and> \<not> value_is_mate c beta
              \<and> e_non_pawn_material_stm e (ext w1) \<noteq> 0
              \<and> staticValue \<ge> beta - NullMoveMargin
      then
       (case search_null_move c e r beta depth ply threadID staticValue w1 of
          None \<Rightarrow> None
        | Some (Return res) \<Rightarrow> Some (Return res)
        | Some (Continue (mateThreat, w2)) \<Rightarrow>
            search_iid c e r beta depth ply threadID tte ttMove isCheck futilityValue
              mateThreat w2)
      else if \<not> value_is_mate c beta \<and> \<not> isCheck \<and> depth < RazorDepth c
              \<and> staticValue < beta - (NullMoveMargin + 16 * depth)
              \<and> currentMove (ss w1 (ply - 1)) \<noteq> MOVE_NULL c
              \<and> ttMove = MOVE_NONE c
              \<and> \<not> e_has_pawn_on_7th e (ext w1)
      then
       (let rbeta = beta - (NullMoveMargin + 16 * depth)
        in case r_qsearch r (rbeta - 1) rbeta 0 ply threadID w1 of
             None \<Rightarrow> None
           | Some (v, w2) \<Rightarrow>
               if v < rbeta then Some (Return (Razoring, v, w2))
               else search_iid c e r beta depth ply threadID tte ttMove isCheck
                      futilityValue False w2)
      else search_iid c e r beta depth ply threadID tte ttMove isCheck futilityValue
             False w1)"

text \<open>
  The singular extension test, shared by \<open>search\<close> and \<open>search_pv\<close> (which differ
  in the depth bound \<open>minDepth\<close> and in \<open>search\<close> asking for no excluded move): the
  extension to use, after the excluded-move search where one is made.
\<close>

definition singular_extension ::
  "cfg \<Rightarrow> 'x rec \<Rightarrow> bool \<Rightarrow> Depth \<Rightarrow> int \<Rightarrow> int \<Rightarrow> TTEntry option \<Rightarrow> Move \<Rightarrow> Depth \<Rightarrow> 'x world
   \<Rightarrow> (Depth \<times> 'x world) option" where
  "singular_extension c r deepEnough depth ply threadID tte move ext0 w =
     (case tte of
        None \<Rightarrow> Some (ext0, w)
      | Some t \<Rightarrow>
         if deepEnough \<and> move = uint (tte_move t) \<and> ext0 < OnePly c
            \<and> is_lower_bound c (tte_type t) \<and> tte_depth t \<ge> depth - 3 * OnePly c
         then
          (let ttValue = value_from_tt c (tte_value t) ply
           in if \<bar>ttValue\<bar> < VALUE_KNOWN_WIN c
              then
               (case r_search r (ttValue - SingleReplyMargin) (c_div depth 2) ply False threadID
                       move w of
                  None \<Rightarrow> None
                | Some (excValue, w') \<Rightarrow>
                    Some (if excValue < ttValue - SingleReplyMargin then OnePly c else ext0, w'))
              else Some (ext0, w))
         else Some (ext0, w))"

text \<open>The body of the move loop of \<open>search\<close> for one move.\<close>

definition search_move ::
  "cfg \<Rightarrow> 'x env \<Rightarrow> 'x rec \<Rightarrow> Depth \<Rightarrow> int \<Rightarrow> int \<Rightarrow> Move \<Rightarrow> 'x sentry
   \<Rightarrow> Move \<Rightarrow> 'x sloop \<Rightarrow> (bool \<times> 'x sloop) option" where
  "search_move c e r depth ply threadID excludedMove en move st =
     (if move = excludedMove then Some (False, st)
      else
       (let beta = sl_beta st;
            x = ext (sl_w st);
            isCheck = se_isCheck en;
            FutilityMoveCountMargin = 3 + 2 ^ nat (c_div (3 * depth) 8);
            moveIsCheck = e_move_is_check e move x;
            singleEvasion = (isCheck \<and> e_number_of_evasions e x = 1);
            captureOrPromotion = e_move_is_capture_or_promotion e move x;
            (ext0, dangerous) = extension c e x move False captureOrPromotion moveIsCheck
                                  singleEvasion (se_mateThreat en)
        in
        case singular_extension c r (depth \<ge> 8 * OnePly c \<and> excludedMove = 0) depth ply
               threadID (se_tte en) move ext0 (sl_w st) of
          None \<Rightarrow> None
        | Some (ext1, wa) \<Rightarrow>
           (let newDepth = depth - OnePly c + ext1;
                moveCount = sl_moveCount st + 1;
                wb = upd_ss ply (\<lambda>s. s\<lparr> currentMove := move \<rparr>) wa;
                st1 = st\<lparr> sl_moveCount := moveCount,
                          sl_movesSearched := sl_movesSearched st @ [move], sl_w := wb \<rparr>;
                quiet = (\<not> isCheck \<and> \<not> dangerous \<and> \<not> captureOrPromotion
                         \<and> \<not> e_move_is_castle e move \<and> move \<noteq> se_ttMove en)
            in
            if quiet \<and> moveCount \<ge> FutilityMoveCountMargin
               \<and> e_ok_to_prune e move (threatMove (ss wb ply)) (ext wb)
               \<and> sl_bestValue st1 > value_mated_in c (PLY_MAX c)
            then Some (False, st1)
            else
             (let red = nonpv_reduction c depth moveCount;
                  wc = (if quiet then upd_ss ply (\<lambda>s. s\<lparr> reduction := red \<rparr>) wb else wb);
                  predictedDepth = (if red \<noteq> 0 then newDepth - red else newDepth);
                  preFutilityValueMargin =
                    (if predictedDepth \<ge> OnePly c then FutilityMargins c predictedDepth else 0)
                    + e_gain e move (ext wc) + 45;
                  futilityValueScaled = eval (ss wc ply) + preFutilityValueMargin
                                        - moveCount * IncrementalFutilityMargin
              in
              if quiet \<and> predictedDepth < SelectiveDepth c \<and> futilityValueScaled < beta
              then Some (False,
                     (if futilityValueScaled > sl_bestValue st1
                      then st1\<lparr> sl_bestValue := futilityValueScaled, sl_w := wc \<rparr>
                      else st1\<lparr> sl_w := wc \<rparr>))
              else
               (let wd = upd_ext (e_do_move e move) wc;
                    reducible = (depth \<ge> 3 * OnePly c \<and> \<not> dangerous \<and> \<not> captureOrPromotion
                                 \<and> \<not> e_move_is_castle e move
                                 \<and> \<not> move_is_killer move (killers (ss wd ply)));
                    we = (if reducible then upd_ss ply (\<lambda>s. s\<lparr> reduction := red \<rparr>) wd else wd)
                in
                case (if reducible \<and> red \<noteq> 0
                      then (case r_search r (- (beta - 1)) (newDepth - red) (ply + 1) True threadID
                                   (MOVE_NONE c) we of
                              None \<Rightarrow> None
                            | Some (v, w') \<Rightarrow> Some (- v \<ge> beta, - v, w'))
                      else Some (True, sl_bestValue st1, we)) of
                  None \<Rightarrow> None
                | Some (doFullDepthSearch, value0, wx) \<Rightarrow>
                   (case (if doFullDepthSearch
                          then (case r_search r (- (beta - 1)) newDepth (ply + 1) True threadID
                                       (MOVE_NONE c)
                                       (upd_ss ply (\<lambda>s. s\<lparr> reduction := 0 \<rparr>) wx) of
                                  None \<Rightarrow> None
                                | Some (v, w') \<Rightarrow> Some (- v, w'))
                          else Some (value0, wx)) of
                      None \<Rightarrow> None
                    | Some (value, wg) \<Rightarrow>
                       (let wh = upd_ext (e_undo_move e move) wg;
                            st2 =
                              (if value > sl_bestValue st1
                               then
                                (let wi = (if value \<ge> beta then update_pv c ply wh else wh);
                                     wj = (if value = value_mate_in c (ply + 1)
                                           then upd_ss ply (\<lambda>s. s\<lparr> mateKiller := move \<rparr>) wi
                                           else wi)
                                 in st1\<lparr> sl_bestValue := value, sl_w := wj \<rparr>)
                               else st1\<lparr> sl_w := wh \<rparr>)
                        in
                        if ActiveThreads c > 1 \<and> sl_bestValue st2 < beta
                           \<and> depth \<ge> MinimumSplitDepth c \<and> Iteration (glob (sl_w st2)) \<le> 99
                           \<and> \<not> AbortSearch (glob (sl_w st2))
                           \<and> \<not> e_thread_should_stop e threadID (ext (sl_w st2))
                        then
                         (case e_split e threadID False depth ply moveCount
                                 (beta, beta, sl_bestValue st2) (sl_w st2) of
                            None \<Rightarrow> Some (False, st2)
                          | Some ((a', b', bv'), w') \<Rightarrow>
                              Some (True, st2\<lparr> sl_beta := b', sl_bestValue := bv', sl_w := w' \<rparr>))
                        else Some (False, st2))))))))"

text \<open>\<open>search\<close> after its move loop.\<close>

definition search_epilogue ::
  "cfg \<Rightarrow> 'x env \<Rightarrow> Depth \<Rightarrow> int \<Rightarrow> int \<Rightarrow> Move \<Rightarrow> 'x sloop \<Rightarrow> exit_site \<times> Value \<times> 'x world" where
  "search_epilogue c e depth ply threadID excludedMove st =
     (let w = sl_w st; beta = sl_beta st; bestValue = sl_bestValue st
      in
      if sl_moveCount st = 0
      then (NoMoveSearched,
            (if excludedMove \<noteq> 0 then beta - 1
             else if e_is_check e (ext w) then value_mated_in c ply else VALUE_DRAW),
            w)
      else if AbortSearch (glob w) \<or> e_thread_should_stop e threadID (ext w)
      then (AbortedAfterLoop, bestValue, w)
      else if bestValue < beta
      then (AfterLoop, bestValue,
            upd_ext (e_tt_store e (excludedMove \<noteq> 0) (value_to_tt c bestValue ply)
                       (VALUE_TYPE_UPPER c) depth (MOVE_NONE c)) w)
      else
       (let w1 = upd_ext (e_BetaCounter_add e depth threadID) w;
            move = pv (ss w1 ply) ply;
            w2 = upd_ext (e_tt_store e (excludedMove \<noteq> 0) (value_to_tt c bestValue ply)
                            (VALUE_TYPE_LOWER c) depth move) w1
        in (AfterLoop, bestValue,
            if \<not> e_move_is_capture_or_promotion e move (ext w2)
            then upd_ss ply (\<lambda>s. s\<lparr> killers := update_killers move (killers s) \<rparr>)
                   (upd_ext (update_history e move depth (sl_movesSearched st) (sl_moveCount st)) w2)
            else w2)))"

text \<open>The move loop of \<open>search\<close> and what follows it.\<close>

definition search_moves ::
  "cfg \<Rightarrow> 'x env \<Rightarrow> 'x rec \<Rightarrow> Value \<Rightarrow> Depth \<Rightarrow> int \<Rightarrow> int \<Rightarrow> Move \<Rightarrow> 'x sentry
   \<Rightarrow> (exit_site \<times> Value \<times> 'x world) option" where
  "search_moves c e r beta depth ply threadID excludedMove en =
     (case move_loop
             (\<lambda>st. sl_bestValue st < sl_beta st
                   \<and> \<not> e_thread_should_stop e threadID (ext (sl_w st)))
             (search_move c e r depth ply threadID excludedMove en)
             (e_moves e (se_ttMove en) depth ply True (se_w en))
             \<lparr> sl_beta = beta, sl_bestValue = - VALUE_INFINITE c, sl_moveCount = 0,
               sl_movesSearched = [], sl_w = se_w en \<rparr> of
        None \<Rightarrow> None
      | Some st \<Rightarrow> Some (search_epilogue c e depth ply threadID excludedMove st))"

text \<open>
  \<open>search\<close> from the line after the table cutoff to its end: the part before the move
  loop, which may return, and then the move loop.
\<close>

definition search_after_probe ::
  "cfg \<Rightarrow> 'x env \<Rightarrow> 'x rec \<Rightarrow> Value \<Rightarrow> Depth \<Rightarrow> int \<Rightarrow> bool \<Rightarrow> int \<Rightarrow> Move \<Rightarrow> TTEntry option
   \<Rightarrow> Move \<Rightarrow> 'x world \<Rightarrow> (exit_site \<times> Value \<times> 'x world) option" where
  "search_after_probe c e r beta depth ply allowNullmove threadID excludedMove tte ttMove w =
     (case search_pruning c e r beta depth ply allowNullmove threadID tte ttMove w of
        None \<Rightarrow> None
      | Some (Return res) \<Rightarrow> Some res
      | Some (Continue en) \<Rightarrow> search_moves c e r beta depth ply threadID excludedMove en)"

definition search ::
  "cfg \<Rightarrow> 'x env \<Rightarrow> 'x rec \<Rightarrow> Value \<Rightarrow> Depth \<Rightarrow> int \<Rightarrow> bool \<Rightarrow> int \<Rightarrow> Move \<Rightarrow> 'x world
   \<Rightarrow> (exit_site \<times> Value \<times> 'x world) option" where
  "search c e r beta depth ply allowNullmove threadID excludedMove w0 =
     (if depth < OnePly c
      then (case r_qsearch r (beta - 1) beta 0 ply threadID w0 of
              None \<Rightarrow> None
            | Some (v, w) \<Rightarrow> Some (ViaQsearch, v, w))
      else
       (let w = init_node c e ply threadID w0
        in
        if AbortSearch (glob w) \<or> e_thread_should_stop e threadID (ext w)
        then Some (Aborted, 0, w)
        else if e_is_draw e (ext w) \<or> ply \<ge> PLY_MAX c - 1
        then Some (Draw, VALUE_DRAW, w)
        else if value_mated_in c ply \<ge> beta
        then Some (MateDistance, beta, w)
        else if value_mate_in c (ply + 1) < beta
        then Some (MateDistance, beta - 1, w)
        else
         (let tte = e_tt_retrieve e (excludedMove \<noteq> 0) (ext w);
              ttMove = tt_move_of c tte
          in
          if (case tte of Some t \<Rightarrow> ok_to_use_TT c t depth beta ply | None \<Rightarrow> False)
          then Some (TTCutoff, value_from_tt c (tte_value (the tte)) ply,
                     upd_ss ply (\<lambda>s. s\<lparr> currentMove := ttMove \<rparr>) w)
          else search_after_probe c e r beta depth ply allowNullmove threadID excludedMove
                 tte ttMove w)))"

section \<open>PV search (search.cpp, search\_pv)\<close>

text \<open>The variables the move loop of \<open>search_pv\<close> changes.\<close>

record 'x pvloop =
  pl_alpha :: Value
  pl_beta :: Value
  pl_bestValue :: Value
  pl_moveCount :: int
  pl_movesSearched :: "Move list"
  pl_w :: "'x world"

text \<open>
  \<open>search_pv\<close> from \<open>init_node\<close> to the construction of the move picker. Where it
  goes on to the move loop it hands over \<open>oldAlpha\<close>, the window after mate distance
  pruning, the entry and move for ordering, \<open>isCheck\<close>, \<open>mateThreat\<close> and the world.
\<close>

record 'x pventry =
  pe_oldAlpha :: Value
  pe_alpha :: Value
  pe_beta :: Value
  pe_tte :: "TTEntry option"
  pe_ttMove :: Move
  pe_isCheck :: bool
  pe_mateThreat :: bool
  pe_w :: "'x world"

definition search_pv_prologue ::
  "cfg \<Rightarrow> 'x env \<Rightarrow> 'x rec \<Rightarrow> Value \<Rightarrow> Value \<Rightarrow> Depth \<Rightarrow> int \<Rightarrow> int \<Rightarrow> 'x world
   \<Rightarrow> (exit_site \<times> Value \<times> 'x world, 'x pventry) flow option" where
  "search_pv_prologue c e r alpha0 beta0 depth ply threadID w0 =
     (let w = init_node c e ply threadID w0
      in
      if AbortSearch (glob w) \<or> e_thread_should_stop e threadID (ext w)
      then Some (Return (Aborted, 0, w))
      else if e_is_draw e (ext w) \<or> ply \<ge> PLY_MAX c - 1
      then Some (Return (Draw, VALUE_DRAW, w))
      else
       (let oldAlpha = alpha0;
            alpha = max (value_mated_in c ply) alpha0;
            beta = min (value_mate_in c (ply + 1)) beta0
        in
        if alpha \<ge> beta then Some (Return (MateDistance, alpha, w))
        else
         (let tte0 = e_tt_retrieve e False (ext w);
              ttMove0 = tt_move_of c tte0
          in
          case (if UseIIDAtPVNodes \<and> depth \<ge> 5 * OnePly c \<and> ttMove0 = MOVE_NONE c
                then (case r_search_pv r alpha beta (depth - 2 * OnePly c) ply threadID w of
                        None \<Rightarrow> None
                      | Some (v, w') \<Rightarrow>
                          Some (pv (ss w' ply) ply, e_tt_retrieve e False (ext w'), w'))
                else Some (ttMove0, tte0, w)) of
            None \<Rightarrow> None
          | Some (ttMove, tte, w1) \<Rightarrow>
             (let isCheck = e_is_check e (ext w1);
                  w2 = (if \<not> isCheck
                        then (let w' = upd_ss ply
                                         (\<lambda>s. s\<lparr> eval := fst (e_evaluate e threadID (ext w1)) \<rparr>) w1
                              in upd_ext (update_gains c e (currentMove (ss w' (ply - 1)))
                                            (eval (ss w' (ply - 1))) (eval (ss w' ply))) w')
                        else w1)
              in Some (Continue \<lparr> pe_oldAlpha = oldAlpha, pe_alpha = alpha, pe_beta = beta,
                                     pe_tte = tte, pe_ttMove = ttMove, pe_isCheck = isCheck,
                                     pe_mateThreat = e_has_mate_threat e (ext w2),
                                     pe_w = w2 \<rparr>)))))"

text \<open>The body of the move loop of \<open>search_pv\<close> for one move.\<close>

definition search_pv_move ::
  "cfg \<Rightarrow> 'x env \<Rightarrow> 'x rec \<Rightarrow> Depth \<Rightarrow> int \<Rightarrow> int \<Rightarrow> 'x pventry
   \<Rightarrow> Move \<Rightarrow> 'x pvloop \<Rightarrow> (bool \<times> 'x pvloop) option" where
  "search_pv_move c e r depth ply threadID en move st =
     (let alpha = pl_alpha st; beta = pl_beta st;
          x = ext (pl_w st);
          singleEvasion = (pe_isCheck en \<and> e_number_of_evasions e x = 1);
          moveIsCheck = e_move_is_check e move x;
          captureOrPromotion = e_move_is_capture_or_promotion e move x;
          (ext0, dangerous) = extension c e x move True captureOrPromotion moveIsCheck
                                singleEvasion (pe_mateThreat en)
      in
      case singular_extension c r (depth \<ge> 6 * OnePly c) depth ply threadID (pe_tte en) move
             ext0 (pl_w st) of
        None \<Rightarrow> None
      | Some (ext1, wa) \<Rightarrow>
         (let newDepth = depth - OnePly c + ext1;
              moveCount = pl_moveCount st + 1;
              wb = upd_ext (e_do_move e move) (upd_ss ply (\<lambda>s. s\<lparr> currentMove := move \<rparr>) wa);
              st1 = st\<lparr> pl_moveCount := moveCount,
                        pl_movesSearched := pl_movesSearched st @ [move] \<rparr>
          in
          case (if moveCount = 1
                then (case r_search_pv r (- beta) (- alpha) newDepth (ply + 1) threadID wb of
                        None \<Rightarrow> None
                      | Some (v, w') \<Rightarrow> Some (- v, w'))
                else
                 (let red = pv_reduction c depth moveCount;
                      reducible = (depth \<ge> 3 * OnePly c \<and> \<not> dangerous \<and> \<not> captureOrPromotion
                                   \<and> \<not> e_move_is_castle e move
                                   \<and> \<not> move_is_killer move (killers (ss wb ply)));
                      wc = (if reducible then upd_ss ply (\<lambda>s. s\<lparr> reduction := red \<rparr>) wb else wb)
                  in
                  case (if reducible \<and> red \<noteq> 0
                        then (case r_search r (- alpha) (newDepth - red) (ply + 1) True threadID
                                     (MOVE_NONE c) wc of
                                None \<Rightarrow> None
                              | Some (v, w') \<Rightarrow> Some (- v > alpha, - v, w'))
                        else Some (True, pl_bestValue st1, wc)) of
                    None \<Rightarrow> None
                  | Some (doFullDepthSearch, value0, wd) \<Rightarrow>
                     (if doFullDepthSearch
                      then
                       (case r_search r (- alpha) newDepth (ply + 1) True threadID (MOVE_NONE c)
                               (upd_ss ply (\<lambda>s. s\<lparr> reduction := 0 \<rparr>) wd) of
                          None \<Rightarrow> None
                        | Some (v, we) \<Rightarrow>
                            if - v > alpha \<and> - v < beta
                            then (case r_search_pv r (- beta) (- alpha) newDepth (ply + 1)
                                         threadID we of
                                    None \<Rightarrow> None
                                  | Some (v', w') \<Rightarrow> Some (- v', w'))
                            else Some (- v, we))
                      else Some (value0, wd)))) of
            None \<Rightarrow> None
          | Some (value, wg) \<Rightarrow>
             (let wh = upd_ext (e_undo_move e move) wg;
                  st2 =
                    (if value > pl_bestValue st1
                     then
                      (let (alpha', wi) =
                             (if value > alpha
                              then (value,
                                    (let wu = update_pv c ply wh
                                     in if value = value_mate_in c (ply + 1)
                                        then upd_ss ply (\<lambda>s. s\<lparr> mateKiller := move \<rparr>) wu
                                        else wu))
                              else (alpha, wh));
                           g = glob wi;
                           wj = (if ply = 1 \<and> Iteration g \<ge> 2
                                    \<and> - value \<le> ValueByIteration g (Iteration g - 1) - ProblemMargin
                                 then wi\<lparr> glob := g\<lparr> Problem := True \<rparr> \<rparr>
                                 else wi)
                       in st1\<lparr> pl_bestValue := value, pl_alpha := alpha', pl_w := wj \<rparr>)
                     else st1\<lparr> pl_w := wh \<rparr>)
              in
              if ActiveThreads c > 1 \<and> pl_bestValue st2 < beta
                 \<and> depth \<ge> MinimumSplitDepth c \<and> Iteration (glob (pl_w st2)) \<le> 99
                 \<and> \<not> AbortSearch (glob (pl_w st2))
                 \<and> \<not> e_thread_should_stop e threadID (ext (pl_w st2))
              then
               (case e_split e threadID True depth ply moveCount
                       (pl_alpha st2, beta, pl_bestValue st2) (pl_w st2) of
                  None \<Rightarrow> Some (False, st2)
                | Some ((a', b', bv'), w') \<Rightarrow>
                    Some (True, st2\<lparr> pl_alpha := a', pl_beta := b', pl_bestValue := bv',
                                     pl_w := w' \<rparr>))
              else Some (False, st2))))"

text \<open>\<open>search_pv\<close> after its move loop.\<close>

definition search_pv_epilogue ::
  "cfg \<Rightarrow> 'x env \<Rightarrow> Depth \<Rightarrow> int \<Rightarrow> int \<Rightarrow> 'x pventry \<Rightarrow> 'x pvloop
   \<Rightarrow> exit_site \<times> Value \<times> 'x world" where
  "search_pv_epilogue c e depth ply threadID en st =
     (let w = pl_w st; beta = pl_beta st; bestValue = pl_bestValue st
      in
      if pl_moveCount st = 0
      then (NoMoveSearched, (if pe_isCheck en then value_mated_in c ply else VALUE_DRAW), w)
      else if AbortSearch (glob w) \<or> e_thread_should_stop e threadID (ext w)
      then (AbortedAfterLoop, bestValue, w)
      else if bestValue \<le> pe_oldAlpha en
      then (AfterLoop, bestValue,
            upd_ext (e_tt_store e False (value_to_tt c bestValue ply) (VALUE_TYPE_UPPER c)
                       depth (MOVE_NONE c)) w)
      else if bestValue \<ge> beta
      then
       (let w1 = upd_ext (e_BetaCounter_add e depth threadID) w;
            move = pv (ss w1 ply) ply;
            w2 = (if \<not> e_move_is_capture_or_promotion e move (ext w1)
                  then upd_ss ply (\<lambda>s. s\<lparr> killers := update_killers move (killers s) \<rparr>)
                         (upd_ext (update_history e move depth (pl_movesSearched st)
                                     (pl_moveCount st)) w1)
                  else w1)
        in (AfterLoop, bestValue,
            upd_ext (e_tt_store e False (value_to_tt c bestValue ply) (VALUE_TYPE_LOWER c)
                       depth move) w2))
      else (AfterLoop, bestValue,
            upd_ext (e_tt_store e False (value_to_tt c bestValue ply) (VALUE_TYPE_EXACT c)
                       depth (pv (ss w ply) ply)) w))"

text \<open>The move loop of \<open>search_pv\<close> and what follows it.\<close>

definition search_pv_moves ::
  "cfg \<Rightarrow> 'x env \<Rightarrow> 'x rec \<Rightarrow> Depth \<Rightarrow> int \<Rightarrow> int \<Rightarrow> 'x pventry
   \<Rightarrow> (exit_site \<times> Value \<times> 'x world) option" where
  "search_pv_moves c e r depth ply threadID en =
     (case move_loop
             (\<lambda>st. pl_alpha st < pl_beta st
                   \<and> \<not> e_thread_should_stop e threadID (ext (pl_w st)))
             (search_pv_move c e r depth ply threadID en)
             (e_moves e (pe_ttMove en) depth ply True (pe_w en))
             \<lparr> pl_alpha = pe_alpha en, pl_beta = pe_beta en,
               pl_bestValue = - VALUE_INFINITE c, pl_moveCount = 0,
               pl_movesSearched = [], pl_w = pe_w en \<rparr> of
        None \<Rightarrow> None
      | Some st \<Rightarrow> Some (search_pv_epilogue c e depth ply threadID en st))"

definition search_pv ::
  "cfg \<Rightarrow> 'x env \<Rightarrow> 'x rec \<Rightarrow> Value \<Rightarrow> Value \<Rightarrow> Depth \<Rightarrow> int \<Rightarrow> int \<Rightarrow> 'x world
   \<Rightarrow> (exit_site \<times> Value \<times> 'x world) option" where
  "search_pv c e r alpha beta depth ply threadID w0 =
     (if depth < OnePly c
      then (case r_qsearch r alpha beta 0 ply threadID w0 of
              None \<Rightarrow> None
            | Some (v, w) \<Rightarrow> Some (ViaQsearch, v, w))
      else
       (case search_pv_prologue c e r alpha beta depth ply threadID w0 of
          None \<Rightarrow> None
        | Some (Return res) \<Rightarrow> Some res
        | Some (Continue en) \<Rightarrow> search_pv_moves c e r depth ply threadID en))"

section \<open>What a PV node reads of the probed entry\<close>



section \<open>The three functions together\<close>

text \<open>
  \<open>searches n\<close> closes the recursion: the functions a node calls are the search functions
  themselves, with the exit tags dropped, down to \<open>n\<close> nested calls; a call nested deeper
  has no result.
\<close>

definition untag :: "(exit_site \<times> Value \<times> 'w) option \<Rightarrow> (Value \<times> 'w) option" where
  "untag res = map_option snd res"

primrec searches :: "cfg \<Rightarrow> 'x env \<Rightarrow> nat \<Rightarrow> 'x rec" where
  "searches c e 0 =
     \<lparr> r_search_pv = (\<lambda>alpha beta depth ply threadID w. None),
       r_search = (\<lambda>beta depth ply allowNullmove threadID excludedMove w. None),
       r_qsearch = (\<lambda>alpha beta depth ply threadID w. None) \<rparr>"
| "searches c e (Suc n) =
     \<lparr> r_search_pv = (\<lambda>alpha beta depth ply threadID w.
          untag (search_pv c e (searches c e n) alpha beta depth ply threadID w)),
       r_search = (\<lambda>beta depth ply allowNullmove threadID excludedMove w.
          untag (search c e (searches c e n) beta depth ply allowNullmove threadID excludedMove w)),
       r_qsearch = (\<lambda>alpha beta depth ply threadID w.
          untag (qsearch c e (searches c e n) alpha beta depth ply threadID w)) \<rparr>"

section \<open>An instance to run the search on\<close>

text \<open>
  A configuration with one ply of two depth units, a mate value of 30000 and one search
  thread, the first entries of the futility margin table and no reductions; the value types
  are bit masks, \<open>EVAL\<close> being bit 2. The theorems below hold for every configuration;
  this one serves to evaluate the model.
\<close>

definition example_cfg :: cfg where
  "example_cfg =
     \<lparr> OnePly = 2, PLY_MAX = 100, VALUE_MATE = 30000, VALUE_INFINITE = 30001,
       VALUE_KNOWN_WIN = 15000, VALUE_NONE = 30002, MOVE_NONE = 0, MOVE_NULL = 65,
       PawnValueMidgame = 198, PawnValueEndgame = 258, RookValueMidgame = 1278,
       VALUE_TYPE_UPPER = 1, VALUE_TYPE_LOWER = 2, VALUE_TYPE_EXACT = 3,
       VALUE_TYPE_EVAL = 4, VALUE_TYPE_EV_UP = 5, VALUE_TYPE_EV_LO = 6,
       value_from_tt = (\<lambda>v ply. if v > 29900 then v - ply
                                  else if v < - 29900 then v + ply else v),
       value_to_tt = (\<lambda>v ply. if v > 29900 then v + ply
                                else if v < - 29900 then v - ply else v),
       is_lower_bound = (\<lambda>t. t AND 2 \<noteq> 0),
       is_upper_bound = (\<lambda>t. t AND 1 \<noteq> 0),
       FutilityMargins = (\<lambda>i. if i < 2 then 0 else if i < 3 then 112 else if i < 4 then 224
                               else if i < 6 then 336 else 448),
       PVReductionMatrix = (\<lambda>d mn. 0), NonPVReductionMatrix = (\<lambda>d mn. 0),
       ThreatDepth = 10,
       CheckExtension = (\<lambda>pvNode. if pvNode then 2 else 1),
       SingleEvasionExtension = (\<lambda>pvNode. 2),
       PawnPushTo7thExtension = (\<lambda>pvNode. 1),
       PassedPawnExtension = (\<lambda>pvNode. if pvNode then 1 else 0),
       PawnEndgameExtension = (\<lambda>pvNode. 2),
       MateThreatExtension = (\<lambda>pvNode. 0),
       ActiveThreads = 1, MinimumSplitDepth = 8 \<rparr>"

text \<open>
  A position seen through what the search asks of it: whether the side to move is in check,
  whether the position is a draw by rule, its static evaluation, the entry the table holds
  for it, the moves the picker hands out, and the material of the side to move.
\<close>

record toy =
  t_is_check :: bool
  t_is_draw :: bool
  t_eval :: Value
  t_tte :: "TTEntry option"
  t_moves :: "Move list"
  t_npm :: Value

definition toy_env :: "toy env" where
  "toy_env =
     \<lparr> e_is_draw = t_is_draw, e_is_check = t_is_check,
       e_has_mate_threat = (\<lambda>x. False),
       e_non_pawn_material_stm = t_npm,
       e_non_pawn_material_both = (\<lambda>x. t_npm x + 1278),
       e_has_pawn_on_7th = (\<lambda>x. False), e_can_castle = (\<lambda>x. False),
       e_captured_piece_none = (\<lambda>x. True), e_number_of_evasions = (\<lambda>x. 0),
       e_move_is_check = (\<lambda>m x. False), e_move_is_capture_or_promotion = (\<lambda>m x. False),
       e_move_is_capture = (\<lambda>m x. False), e_move_is_castle = (\<lambda>m. False),
       e_move_is_promotion = (\<lambda>m. False), e_move_is_ep = (\<lambda>m. False),
       e_move_is_passed_pawn_push = (\<lambda>m x. False), e_see_sign = (\<lambda>m x. 0),
       e_from_is_pawn = (\<lambda>m x. False), e_from_is_king = (\<lambda>m x. False),
       e_to_is_pawn = (\<lambda>m x. False), e_to_on_rank_7 = (\<lambda>m x. False),
       e_pawn_is_passed = (\<lambda>m x. False), e_midgame_value_on_to = (\<lambda>m x. 0),
       e_endgame_value_on_to = (\<lambda>m x. 0), e_ok_to_prune = (\<lambda>m t x. True),
       e_connected_moves = (\<lambda>m1 m2 x. False), e_gain = (\<lambda>m x. 0),
       e_set_gain = (\<lambda>m v x. x), e_H_success = (\<lambda>m d x. x), e_H_failure = (\<lambda>m d x. x),
       e_BetaCounter_add = (\<lambda>d t x. x),
       e_do_move = (\<lambda>m x. x), e_undo_move = (\<lambda>m x. x),
       e_do_null_move = (\<lambda>x. x), e_undo_null_move = (\<lambda>x. x),
       e_tt_retrieve = (\<lambda>excl x. if excl then None else t_tte x),
       e_tt_store = (\<lambda>excl v t d m x. x),
       e_evaluate = (\<lambda>threadID x. (t_eval x, 0)), e_ei_default = (\<lambda>x. 0),
       e_moves = (\<lambda>ttMove depth ply withSs w. t_moves (ext w)),
       e_count_node = (\<lambda>threadID x. x), e_thread_should_stop = (\<lambda>threadID x. False),
       e_printCurrentLine = (\<lambda>threadID x. False),
       e_print_current_line = (\<lambda>ply threadID w. w),
       e_split = (\<lambda>threadID pvNode depth ply moveCount abv w. None),
       e_stdin = (\<lambda>x. (NoInput, x)), e_now = (\<lambda>x. 0),
       e_nodes_searched = (\<lambda>x. 0), e_TT_full = (\<lambda>x. 0) \<rparr>"

definition stack0 :: SearchStack where
  "stack0 = \<lparr> pv = (\<lambda>i. 0), currentMove = 0, threatMove = 0, mateKiller = 0,
               reduction = 0, eval = 30002, killers = [0, 0] \<rparr>"

definition toy_world :: "toy \<Rightarrow> toy world" where
  "toy_world x = \<lparr> ss = (\<lambda>ply. stack0), glob = globals0, ext = x \<rparr>"

text \<open>The side to move has no legal move and is not in check; it is far behind.\<close>

definition stalemate :: toy where
  "stalemate = \<lparr> t_is_check = False, t_is_draw = False, t_eval = - 700, t_tte = None,
                  t_moves = [], t_npm = 0 \<rparr>"

text \<open>The side to move has no legal move and is in check.\<close>

definition checkmate :: toy where
  "checkmate = \<lparr> t_is_check = True, t_is_draw = False, t_eval = - 700, t_tte = None,
                  t_moves = [], t_npm = 0 \<rparr>"


text \<open>Child searches that return the value 50 for the side to move there.\<close>

definition toy_rec :: "toy rec" where
  "toy_rec =
     \<lparr> r_search_pv = (\<lambda>alpha beta depth ply threadID w. Some (50, w)),
       r_search = (\<lambda>beta depth ply allowNullmove threadID excludedMove w. Some (50, w)),
       r_qsearch = (\<lambda>alpha beta depth ply threadID w. Some (50, w)) \<rparr>"

text \<open>Further positions and child searches for the instance.\<close>

text \<open>
  A quiet position for which the table holds a lower bound of 300 from a search of depth 10:
  value type \<open>LOWER\<close> (2) in bits 20-22 of \<open>data\<close>, move \<open>0xC1C\<close>.
\<close>

definition tt_hit :: toy where
  "tt_hit =
     \<lparr> t_is_check = False, t_is_draw = False, t_eval = 0,
       t_tte = Some \<lparr> key_field = 0, data = 0x200C1C, value_field = 300, depth_field = 10 \<rparr>,
       t_moves = [], t_npm = 3000 \<rparr>"

text \<open>A quiet position with pieces left and a static evaluation of 20.\<close>

definition quiet :: toy where
  "quiet = \<lparr> t_is_check = False, t_is_draw = False, t_eval = 20, t_tte = None,
              t_moves = [], t_npm = 3000 \<rparr>"

text \<open>
  Child searches for the null move block: the search after the null move (at ply 2) returns
  -60, any other zero-window search 50.
\<close>

definition null_rec :: "toy rec" where
  "null_rec =
     \<lparr> r_search_pv = (\<lambda>alpha beta depth ply threadID w. Some (50, w)),
       r_search = (\<lambda>beta depth ply allowNullmove threadID excludedMove w.
                     Some (if ply = 2 then - 60 else 50, w)),
       r_qsearch = (\<lambda>alpha beta depth ply threadID w. Some (50, w)) \<rparr>"



text \<open>
  An upper bound of no depth whose stored value -29901 is, one ply from the root, exactly
  \<open>value_mated_in(PLY_MAX)\<close>: value type \<open>UPPER\<close> (1) in bits 20-22 of
  \<open>data\<close>.
\<close>

definition mated_bound :: TTEntry where
  "mated_bound = \<lparr> key_field = 0, data = 0x100000, value_field = - 29901, depth_field = 0 \<rparr>"

text \<open>The exit and the value of a result, without the world.\<close>

definition outcome :: "(exit_site \<times> Value \<times> 'w) option \<Rightarrow> (exit_site \<times> Value) option" where
  "outcome res = map_option (\<lambda>(x, v, w). (x, v)) res"

text \<open>
  The null move reduction as the specification writes it:
  \<open>R = 3 + (depth >= 5 * ONE_PLY ? depth / 8 : 0) + (eval - beta > pawn ? 1 : 0)\<close>.
\<close>

definition null_R :: "cfg \<Rightarrow> Depth \<Rightarrow> Value \<Rightarrow> Value \<Rightarrow> int" where
  "null_R c depth staticValue beta =
     3 + (if depth \<ge> 5 * OnePly c then depth div 8 else 0)
       + (if staticValue - beta > PawnValueMidgame c then 1 else 0)"

text \<open>
  The table test as the specification words it, for comparison with \<open>ok_to_use_TT\<close>:
  the entry is deep enough, or its ply-adjusted value is at or beyond the mate threshold on
  the side of \<open>beta\<close> asked for, and the bound fits \<open>beta\<close>.
\<close>

definition ok_to_use_TT_spec :: "cfg \<Rightarrow> TTEntry \<Rightarrow> Depth \<Rightarrow> Value \<Rightarrow> int \<Rightarrow> bool" where
  "ok_to_use_TT_spec c tte d beta p =
     (let v = value_from_tt c (tte_value tte) p
      in (tte_depth tte \<ge> d
          \<or> (v \<ge> value_mate_in c (PLY_MAX c) \<and> v \<ge> beta)
          \<or> (v \<le> value_mated_in c (PLY_MAX c) \<and> v < beta))
         \<and> ((is_lower_bound c (tte_type tte) \<and> v \<ge> beta)
              \<or> (is_upper_bound c (tte_type tte) \<and> v < beta)))"

section \<open>Theorems\<close>

subsection \<open>Killer moves\<close>

lemma length_shift_killers [simp]: "length (shift_killers i ks) = length ks"
  by (induction i arbitrary: ks) auto

lemma shift_killers_nth:
  "i < length ks \<Longrightarrow> j < length ks \<Longrightarrow>
   shift_killers i ks ! j = (if 1 \<le> j \<and> j \<le> i then ks ! (j - 1) else ks ! j)"
proof (induction i arbitrary: ks)
  case 0
  then show ?case by simp
next
  case (Suc i)
  have "shift_killers i (ks[Suc i := ks ! i]) ! j =
        (if 1 \<le> j \<and> j \<le> i then (ks[Suc i := ks ! i]) ! (j - 1) else (ks[Suc i := ks ! i]) ! j)"
    using Suc.prems by (intro Suc.IH) auto
  then show ?case using Suc.prems by (auto simp: nth_list_update)
qed

lemma update_killers_nth:
  assumes "m \<noteq> ks ! 0" and "j < length ks"
  shows "update_killers m ks ! j = (if j = 0 then m else ks ! (j - 1))"
proof -
  have "length ks - 1 < length ks" using assms(2) by simp
  then show ?thesis
    using assms by (auto simp: update_killers_def nth_list_update shift_killers_nth)
qed

text \<open>
  C10. \<open>update_killers\<close> leaves the array as it is when the move is already
  \<open>killers[0]\<close>, so a second call with the same move changes nothing; otherwise the move
  is put in slot 0 and every other slot takes the previous content of the slot before it, and
  then slots 0 and 1 differ.
\<close>

theorem update_killers_shift:
  assumes "2 \<le> length ks"
  shows "(m = ks ! 0 \<longrightarrow> update_killers m ks = ks)
       \<and> update_killers m (update_killers m ks) = update_killers m ks
       \<and> (m \<noteq> ks ! 0 \<longrightarrow>
            update_killers m ks ! 0 = m
          \<and> (\<forall>i. 1 \<le> i \<and> i < length ks \<longrightarrow>
                 update_killers m ks ! i = ks ! (i - 1))
          \<and> update_killers m ks ! 0 \<noteq> update_killers m ks ! 1)"
proof -
  have len: "0 < length ks" "1 < length ks" using assms by auto
  have hit: "update_killers m ks = ks" if "m = ks ! 0"
    using that by (simp add: update_killers_def)
  have head: "update_killers m ks ! 0 = m" if "m \<noteq> ks ! 0"
    using that len(1) by (simp add: update_killers_nth)
  have rest: "update_killers m ks ! i = ks ! (i - 1)"
    if "m \<noteq> ks ! 0" "1 \<le> i \<and> i < length ks" for i
    using that by (simp add: update_killers_nth)
  have second: "update_killers m ks ! 1 = ks ! 0" if "m \<noteq> ks ! 0"
    using that len(2) by (simp add: update_killers_nth)
  have twice: "update_killers m (update_killers m ks) = update_killers m ks"
  proof (cases "m = ks ! 0")
    case True
    then show ?thesis by (simp add: update_killers_def)
  next
    case False
    then show ?thesis
      using head by (simp add: update_killers_def [of m "update_killers m ks"])
  qed
  show ?thesis
    using hit head rest second twice by metis
qed

theorem update_killers_shift_witness:
  "update_killers 7 [3, 5] = [7, 3]
   \<and> update_killers 7 (update_killers 7 [3, 5]) = update_killers 7 [3, 5]
   \<and> update_killers 7 [3, 5] ! 0 \<noteq> update_killers 7 [3, 5] ! 1
   \<and> update_killers 3 [3, 5] = [3, 5]"
  using update_killers_shift [of "[3, 5]" 7] update_killers_shift [of "[3, 5]" 3]
  by (simp add: update_killers_def numeral_2_eq_2)

subsection \<open>History table\<close>

lemma table_add_same: "table_add t p to n p to = t p to + n"
  by (simp add: table_add_def)

lemma table_add_other: "(i, j) \<noteq> (p, to) \<Longrightarrow> table_add t p to n i j = t i j"
  by (auto simp: table_add_def)

lemma sint_add_square:
  fixes h :: "32 word"
  assumes "- (2 ^ 31) \<le> sint h + d * d" and "sint h + d * d < 2 ^ 31"
  shows "sint (h + word_of_int d * word_of_int d) = sint h + d * d"
proof -
  have "h + word_of_int d * word_of_int d = word_of_int (sint h + d * d)"
    by simp
  then have "sint (h + word_of_int d * word_of_int d) = signed_take_bit 31 (sint h + d * d)"
    by (simp only: sint_sbintrunc') simp
  also have "\<dots> = sint h + d * d"
    using assms by (intro signed_take_bit_int_eq_self) simp_all
  finally show ?thesis .
qed

lemma c_div_4_bounds:
  "- (2 ^ 31) \<le> k \<Longrightarrow> k < 2 ^ 31 \<Longrightarrow> - (2 ^ 31) \<le> c_div k 4 \<and> c_div k 4 < 2 ^ 31"
  by (auto simp: c_div_def sgn_if)

lemma sint_c_div_4:
  fixes h :: "32 word"
  shows "sint (word_of_int (c_div (sint h) 4) :: 32 word) = c_div (sint h) 4"
proof -
  have "- (2 ^ 31) \<le> sint h" "sint h < 2 ^ 31"
    using sint_ge [of h] sint_lt [of h] by simp_all
  then have "- (2 ^ 31) \<le> c_div (sint h) 4 \<and> c_div (sint h) 4 < 2 ^ 31"
    by (rule c_div_4_bounds)
  then have "signed_take_bit 31 (c_div (sint h) 4) = c_div (sint h) 4"
    by (intro signed_take_bit_int_eq_self) simp_all
  then show ?thesis by (simp add: sint_sbintrunc')
qed

lemma history_success:
  "history (success M p to d H) i j =
     (if sint (history H p to + word_of_int d * word_of_int d) \<ge> M \<and> i < 16 \<and> j < 64
      then word_of_int
             (c_div (sint (table_add (history H) p to (word_of_int d * word_of_int d) i j)) 4)
      else table_add (history H) p to (word_of_int d * word_of_int d) i j)"
  by (simp add: success_def Let_def table_add_same)

text \<open>
  C5, as the code has it. For a piece \<open>p < 16\<close>, a square \<open>to < 64\<close> and a depth
  \<open>d\<close> for which \<open>history[p][to] + d * d\<close> is in the range of a 32-bit \<open>int\<close>:
  \<open>History::success\<close> adds \<open>d * d\<close> to the history counter of \<open>(p, to)\<close> and
  counts the success; when the bumped counter reaches \<open>HistoryMax\<close>, every counter of the
  16 x 64 table is divided by 4 (truncating). \<open>History::failure\<close> counts the failure of
  \<open>(p, to)\<close> and leaves every history counter as it is.
\<close>

theorem history_success_failure:
  assumes "p < 16" and "to < 64"
    and "- (2 ^ 31) \<le> sint (history H p to) + d * d"
    and "sint (history H p to) + d * d < 2 ^ 31"
  shows "sint (history (success M p to d H) p to) =
           (if sint (history H p to) + d * d \<ge> M then c_div (sint (history H p to) + d * d) 4
            else sint (history H p to) + d * d)
       \<and> (\<forall>i j. i < 16 \<and> j < 64 \<and> (i, j) \<noteq> (p, to) \<longrightarrow>
            sint (history (success M p to d H) i j) =
              (if sint (history H p to) + d * d \<ge> M then c_div (sint (history H i j)) 4
               else sint (history H i j)))
       \<and> successCount (success M p to d H) p to = successCount H p to + 1
       \<and> history (failure p to H) = history H
       \<and> failureCount (failure p to H) p to = failureCount H p to + 1"
proof -
  note s = sint_add_square [OF assms(3) assms(4)]
  have bumped: "sint (history (success M p to d H) p to) =
           (if sint (history H p to) + d * d \<ge> M then c_div (sint (history H p to) + d * d) 4
            else sint (history H p to) + d * d)"
    using assms(1,2) sint_c_div_4 [of "history H p to + word_of_int d * word_of_int d"]
    by (simp add: history_success table_add_same s)
  have others: "sint (history (success M p to d H) i j) =
              (if sint (history H p to) + d * d \<ge> M then c_div (sint (history H i j)) 4
               else sint (history H i j))"
    if "i < 16 \<and> j < 64 \<and> (i, j) \<noteq> (p, to)" for i j
    using that sint_c_div_4 [of "history H i j"]
    by (simp add: history_success table_add_other s)
  have counts: "successCount (success M p to d H) p to = successCount H p to + 1"
    "history (failure p to H) = history H"
    "failureCount (failure p to H) p to = failureCount H p to + 1"
    by (simp_all add: success_def failure_def Let_def table_add_same)
  show ?thesis using bumped others counts by blast
qed

theorem history_success_failure_witness:
  "sint (history (success 100 1 0 10 History_clear) 1 0) = 25
   \<and> sint (history (success 100 1 0 9 History_clear) 1 0) = 81
   \<and> sint (history (failure 1 0 (success 100 1 0 9 History_clear)) 1 0) = 81"
  using history_success_failure [of 1 0 History_clear 10 100]
        history_success_failure [of 1 0 History_clear 9 100]
        history_success_failure [of 1 0 "success 100 1 0 9 History_clear" 9 100]
  by (simp add: History_clear_def c_div_def)

text \<open>
  A failure does not lower the history counter (81 stays 81), and at the bound the counter
  100 becomes 25, not its half.
\<close>

theorem history_failure_halving_counterexample:
  "\<not> (sint (history (failure 1 0 (success 100 1 0 9 History_clear)) 1 0)
          < sint (history (success 100 1 0 9 History_clear) 1 0))
   \<and> sint (history (success 100 1 0 10 History_clear) 1 0) \<noteq> (0 + 10 * 10) div 2"
  by (simp add: history_success failure_def table_add_def History_clear_def c_div_def)

subsection \<open>Transposition table entries\<close>

lemma mask17: "(0x1FFFF :: 32 word) = mask 17"
  by (simp add: mask_eq_exp_minus_1)

lemma mask3: "(7 :: 32 word) = mask 3"
  by (simp add: mask_eq_exp_minus_1)

lemma tte_move_take_bit: "tte_move e = take_bit 17 (data e)"
  by (simp add: tte_move_def mask17 take_bit_eq_mask)

lemma tte_type_take_bit: "tte_type e = take_bit 3 (drop_bit 20 (data e))"
  by (simp add: tte_type_def mask3 take_bit_eq_mask)

lemma tte_move_bound: "unat (tte_move e) < 2 ^ 17"
  using take_bit_nat_less_exp [of 17 "unat (data e)"]
  by (simp add: tte_move_take_bit unsigned_take_bit_eq)

lemma tte_type_bound: "unat (tte_type e) < 2 ^ 3"
  using take_bit_nat_less_exp [of 3 "unat (drop_bit 20 (data e))"]
  by (simp add: tte_type_take_bit unsigned_take_bit_eq)

lemma uint_drop_bit_23: "uint (drop_bit 23 (w :: 32 word)) < 2 ^ 9"
proof -
  have "uint (drop_bit 23 w) = uint w div 2 ^ 23"
    by (simp add: drop_bit_eq_div uint_div)
  moreover have "uint w < 2 ^ 32" using uint_lt2p [of w] by simp
  ultimately show ?thesis by simp
qed

lemma sint_drop_bit_23: "sint (drop_bit 23 (w :: 32 word)) = uint (drop_bit 23 w)"
proof -
  define k where "k = uint (drop_bit 23 w)"
  have "k < 2 ^ 9" unfolding k_def by (rule uint_drop_bit_23)
  moreover have "0 \<le> k" unfolding k_def by simp
  ultimately have "signed_take_bit (31::nat) k = k"
    by (intro signed_take_bit_int_eq_self) simp_all
  then show ?thesis
    by (simp add: sint_uint k_def)
qed

text \<open>
  C6, as the code has it. In the 32-bit \<open>data\<close> word, \<open>move()\<close> is the low 17 bits
  (bits 0-16), \<open>type()\<close> the 3 bits 20-22 and \<open>generation()\<close> the 9 bits 23-31, read
  as a non-negative number.
\<close>

theorem tte_data_layout:
  "tte_move e = take_bit 17 (data e) \<and> unat (tte_move e) < 2 ^ 17
   \<and> tte_type e = take_bit 3 (drop_bit 20 (data e)) \<and> unat (tte_type e) < 2 ^ 3
   \<and> tte_generation e = uint (drop_bit 23 (data e))
   \<and> 0 \<le> tte_generation e \<and> tte_generation e < 2 ^ 9"
proof -
  have "tte_generation e = uint (drop_bit 23 (data e))"
    by (simp add: tte_generation_def sint_drop_bit_23)
  moreover have "uint (drop_bit 23 (data e)) < 2 ^ 9" by (rule uint_drop_bit_23)
  moreover have "0 \<le> uint (drop_bit 23 (data e))" by simp
  ultimately show ?thesis
    using tte_move_take_bit tte_move_bound tte_type_take_bit tte_type_bound by presburger
qed

text \<open>
  The move field is wider than 16 bits (bit 16 of \<open>data\<close> belongs to it), and the
  generation field is wider than 8 bits (bit 31 of \<open>data\<close> belongs to it).
\<close>

theorem tte_move_generation_counterexample:
  "tte_move \<lparr> key_field = 0, data = 0x10000, value_field = 0, depth_field = 0 \<rparr>
     \<noteq> 0x10000 AND 0xFFFF
   \<and> \<not> tte_generation \<lparr> key_field = 0, data = 0x80000000, value_field = 0, depth_field = 0 \<rparr>
         < 2 ^ 8"
  by (simp add: tte_move_def tte_generation_def drop_bit_eq_div)

subsection \<open>UCI errors\<close>

text \<open>
  C9. A line whose first token is none of the commands the dispatcher knows is answered
  with \<open>Unknown command:\<close> and the line; the root position and the options stay as
  they were and the function returns \<open>true\<close>. Setting an option that is not in the map
  prints \<open>No such option:\<close> and the name, and leaves the map as it was, both in
  \<open>set_option_value\<close> of ucioption.cpp and in \<open>set_option\<close> behind the
  \<open>setoption\<close> command.
\<close>

theorem uci_errors_leave_state:
  "(fst (next_token cmd) \<notin> set recognized_commands \<longrightarrow>
      execute_uci_command h cmd e
        = (True, e\<lparr> io := (io e)\<lparr> out := out (io e) @ [''Unknown command: '' @ cmd] \<rparr> \<rparr>)
      \<and> root_pos (snd (execute_uci_command h cmd e)) = root_pos e
      \<and> options (io (snd (execute_uci_command h cmd e))) = options (io e))
   \<and> (options u name = None \<longrightarrow>
      set_option_value name v u = u\<lparr> out := out u @ [''No such option: '' @ name] \<rparr>
      \<and> options (set_option_value name v u) = options u)
   \<and> (fst (next_token cmd) = ''setoption''
       \<and> options (io e) (option_name (snd (next_token cmd))) = None \<longrightarrow>
      execute_uci_command h cmd e
        = (True, e\<lparr> io := (io e)\<lparr> out := out (io e) @
                   [''No such option: '' @ option_name (snd (next_token cmd))] \<rparr> \<rparr>))"
  by (auto simp: execute_uci_command_def recognized_commands_def print_line_def
      set_option_value_def set_option_def split: prod.splits)

lemma tokens_example:
  "tokens '' name Hsah Size value 64'' = [''name'', ''Hsah'', ''Size'', ''value'', ''64'']"
  by (simp add: tokens.simps next_token_def is_space_def)

theorem uci_errors_leave_state_witness:
  "execute_uci_command idle_handlers ''  bogus e2e4''
     \<lparr> root_pos = (), io = \<lparr> options = Map.empty, out = [] \<rparr> \<rparr>
     = (True, \<lparr> root_pos = (), io = \<lparr> options = Map.empty,
                                         out = [''Unknown command:   bogus e2e4''] \<rparr> \<rparr>)
   \<and> set_option_value ''Hsah'' ''64'' \<lparr> options = Map.empty, out = [] \<rparr>
     = \<lparr> options = Map.empty, out = [''No such option: Hsah''] \<rparr>
   \<and> execute_uci_command idle_handlers ''setoption name Hsah Size value 64''
     \<lparr> root_pos = (), io = \<lparr> options = Map.empty, out = [] \<rparr> \<rparr>
     = (True, \<lparr> root_pos = (), io = \<lparr> options = Map.empty,
                                         out = [''No such option: Hsah Size''] \<rparr> \<rparr>)"
proof -
  note unknown = uci_errors_leave_state [where cmd = "''  bogus e2e4''" and h = idle_handlers
      and e = "\<lparr> root_pos = (), io = \<lparr> options = Map.empty, out = [] \<rparr> \<rparr>"
      and u = "\<lparr> options = Map.empty, out = [] \<rparr>" and name = "''Hsah''" and v = "''64''",
      THEN conjunct1]
  note noopt = uci_errors_leave_state [where cmd = "''  bogus e2e4''" and h = idle_handlers
      and e = "\<lparr> root_pos = (), io = \<lparr> options = Map.empty, out = [] \<rparr> \<rparr>"
      and u = "\<lparr> options = Map.empty, out = [] \<rparr>" and name = "''Hsah''" and v = "''64''",
      THEN conjunct2, THEN conjunct1]
  note setopt = uci_errors_leave_state [where cmd = "''setoption name Hsah Size value 64''"
      and h = idle_handlers
      and e = "\<lparr> root_pos = (), io = \<lparr> options = Map.empty, out = [] \<rparr> \<rparr>"
      and u = "\<lparr> options = Map.empty, out = [] \<rparr>" and name = "''Hsah''" and v = "''64''",
      THEN conjunct2, THEN conjunct2]
  have nt: "next_token ''setoption name Hsah Size value 64''
              = (''setoption'', '' name Hsah Size value 64'')"
    by (simp add: next_token_def is_space_def)
  have name: "option_name '' name Hsah Size value 64'' = ''Hsah Size''"
    by (simp add: option_name_def tokens_example)
  show ?thesis
    using unknown noopt setopt
    by (simp add: nt name) (simp add: next_token_def is_space_def recognized_commands_def)
qed

subsection \<open>Node limit\<close>

lemma poll_AbortSearch_NoInput:
  "AbortSearch (poll NoInput now nodes hashfull g) =
     (AbortSearch g \<or>
      (\<not> PonderSearch g \<and>
        ((Iteration g \<ge> 3 \<and> UseTimeManagement g \<and>
            (now - SearchStartTime g > AbsoluteMaxSearchTime g
             \<or> (RootMoveNumber g = 1 \<and> \<not> FailLow g
                 \<and> now - SearchStartTime g > MaxSearchTime g + ExtraSearchTime g)))
         \<or> (ExactMaxTime g \<noteq> 0 \<and> now - SearchStartTime g \<ge> ExactMaxTime g)
         \<or> (Iteration g \<ge> 3 \<and> MaxNodes g \<noteq> 0 \<and> nodes \<ge> MaxNodes g))))"
  by (auto simp: poll_def Let_def)

text \<open>
  C7, as the code has it. A node limit of 0 is no node limit: when \<open>MaxNodes\<close> is 0,
  nothing is typed and no time limit applies, \<open>poll\<close> leaves \<open>AbortSearch\<close> as it
  is, however many nodes have been searched. A limit other than 0 stops the search from the
  third iteration on, once \<open>nodes_searched()\<close> has reached it and the engine is not
  pondering. \<open>think\<close> copies its \<open>maxNodes\<close> argument to \<open>MaxNodes\<close>.
\<close>

theorem poll_node_limit:
  "(MaxNodes g = 0 \<and> \<not> UseTimeManagement g \<and> ExactMaxTime g = 0 \<longrightarrow>
      AbortSearch (poll NoInput now nodes hashfull g) = AbortSearch g)
   \<and> (MaxNodes g \<noteq> 0 \<and> Iteration g \<ge> 3 \<and> \<not> PonderSearch g \<and> nodes \<ge> MaxNodes g \<longrightarrow>
      AbortSearch (poll NoInput now nodes hashfull g))
   \<and> MaxNodes (think_init now' infinite_search ponder maxDepth maxNodes maxTime g) = maxNodes"
  by (auto simp: poll_AbortSearch_NoInput think_init_def)

theorem poll_node_limit_witness:
  "\<not> AbortSearch (poll NoInput 5000 1000000 0
        ((think_init 0 True False 0 0 0 globals0)\<lparr> Iteration := 5 \<rparr>))
   \<and> AbortSearch (poll NoInput 5000 1000000 0
        ((think_init 0 True False 0 1000 0 globals0)\<lparr> Iteration := 5 \<rparr>))"
  using poll_node_limit [of "(think_init 0 True False 0 0 0 globals0)\<lparr> Iteration := 5 \<rparr>"
                            5000 1000000 0]
        poll_node_limit [of "(think_init 0 True False 0 1000 0 globals0)\<lparr> Iteration := 5 \<rparr>"
                            5000 1000000 0]
  by (simp add: think_init_def globals0_def)

text \<open>
  \<open>go nodes 0 wtime 60000 btime 60000\<close>: after a million nodes, 100 ms into the fifth
  iteration, \<open>poll\<close> has not stopped the search.
\<close>

theorem nodes_zero_counterexample:
  "\<not> AbortSearch (poll NoInput 100 1000000 0
        ((think_set_time 60000 0 0 False (think_init 0 False False 0 0 0 globals0))
           \<lparr> Iteration := 5, RootMoveNumber := 2 \<rparr>))"
  by (simp add: poll_AbortSearch_NoInput think_set_time_def think_init_def globals0_def
      c_div_def Let_def)

subsection \<open>Exits of the search functions\<close>

lemma c_div_nonneg: "0 \<le> a \<Longrightarrow> 0 < b \<Longrightarrow> c_div a b = a div b"
  by (simp add: c_div_def sgn_if)

lemma stack_sel:
  "ss (upd_ss ply f w) = (ss w)(ply := f (ss w ply))"
  "glob (upd_ss ply f w) = glob w" "ext (upd_ss ply f w) = ext w"
  "ss (upd_ext g w) = ss w" "glob (upd_ext g w) = glob w" "ext (upd_ext g w) = g (ext w)"
  by (simp_all add: upd_ss_def upd_ext_def)

lemma example_cfg_sel:
  "OnePly example_cfg = 2" "PLY_MAX example_cfg = 100" "VALUE_MATE example_cfg = 30000"
  "VALUE_INFINITE example_cfg = 30001" "MOVE_NONE example_cfg = 0" "MOVE_NULL example_cfg = 65"
  "VALUE_NONE example_cfg = 30002" "PawnValueMidgame example_cfg = 198"
  "RookValueMidgame example_cfg = 1278" "VALUE_TYPE_EVAL example_cfg = 4"
  "value_from_tt example_cfg v ply
     = (if v > 29900 then v - ply else if v < - 29900 then v + ply else v)"
  "is_lower_bound example_cfg ty = (ty AND 2 \<noteq> 0)"
  "is_upper_bound example_cfg ty = (ty AND 1 \<noteq> 0)"
  "FutilityMargins example_cfg i
     = (if i < 2 then 0 else if i < 3 then 112 else if i < 4 then 224
        else if i < 6 then 336 else 448)"
  "ThreatDepth example_cfg = 10" "ActiveThreads example_cfg = 1"
  by (simp_all add: example_cfg_def)

lemma toy_env_sel:
  "e_is_draw toy_env = t_is_draw" "e_is_check toy_env = t_is_check"
  "e_thread_should_stop toy_env threadID x = False"
  "e_tt_retrieve toy_env excl x = (if excl then None else t_tte x)"
  "e_evaluate toy_env threadID x = (t_eval x, 0)" "e_ei_default toy_env x = 0"
  "e_moves toy_env ttMove depth ply withSs w = t_moves (ext w)"
  "e_non_pawn_material_stm toy_env = t_npm"
  "e_has_pawn_on_7th toy_env x = False"
  "e_captured_piece_none toy_env x = True"
  "e_move_is_castle toy_env m = False" "e_move_is_promotion toy_env m = False"
  "e_set_gain toy_env m v x = x"
  "e_do_null_move toy_env x = x" "e_undo_null_move toy_env x = x"
  "e_connected_moves toy_env m1 m2 x = False"
  "e_tt_store toy_env excl v ty d m x = x"
  by (simp_all add: toy_env_def)

lemma init_node_toy:
  "init_node example_cfg toy_env ply 0 (toy_world x)
     = upd_ss (ply + 2) (SearchStack_initKillers example_cfg)
         (upd_ss ply (SearchStack_init example_cfg ply)
            \<lparr> ss = (\<lambda>ply. stack0), glob = globals0\<lparr> NodesSincePoll := 1 \<rparr>, ext = x \<rparr>)"
  by (simp add: init_node_def toy_env_def toy_world_def upd_ext_def upd_ss_def globals0_def Let_def)

lemma toy_after_init:
  "ext (init_node example_cfg toy_env ply 0 (toy_world x)) = x"
  "AbortSearch (glob (init_node example_cfg toy_env ply 0 (toy_world x))) = False"
  unfolding init_node_toy by (simp_all add: upd_ss_def globals0_def)

lemma search_null_move_exit:
  "search_null_move c e r beta depth ply threadID staticValue w = Some (Return (x, v, w')) \<Longrightarrow>
   (x = NullMoveCutoff \<and> v = beta) \<or> (x = ThreatFailLow \<and> v = beta - 1)"
  by (auto simp: search_null_move_def Let_def split: option.splits if_splits)

lemma search_iid_no_return:
  "search_iid c e r beta depth ply threadID tte ttMove isCheck futilityValue mateThreat w \<noteq> Some (Return res)"
  by (auto simp: search_iid_def Let_def split: option.splits if_splits)

lemma search_epilogue_exit:
  "search_epilogue c e depth ply threadID excludedMove st = (x, v, w) \<Longrightarrow>
   x = NoMoveSearched \<or> x = AbortedAfterLoop \<or> x = AfterLoop"
  by (auto simp: search_epilogue_def Let_def split: if_splits)


lemma search_pruning_exit:
  "search_pruning c e r beta depth ply an threadID tte ttMove w = Some (Return (x, v, w')) \<Longrightarrow>
   x = StaticNullMove \<or> x = NullMoveCutoff \<or> x = ThreatFailLow \<or> x = Razoring"
  using search_iid_no_return [of c e r beta depth ply threadID]
  by (auto simp: search_pruning_def Let_def split: option.splits if_splits prod.splits flow.splits
      dest!: search_null_move_exit)

lemma search_moves_exit:
  "search_moves c e r beta depth ply threadID excl en = Some (x, v, w) \<Longrightarrow>
   x = NoMoveSearched \<or> x = AbortedAfterLoop \<or> x = AfterLoop"
  by (auto simp: search_moves_def split: option.splits dest: search_epilogue_exit)

lemma search_after_probe_exit:
  "search_after_probe c e r beta depth ply an threadID excl tte ttMove w = Some (x, v, w') \<Longrightarrow>
   x \<noteq> TTCutoff"
  by (auto simp: search_after_probe_def split: option.splits flow.splits
      dest: search_pruning_exit search_moves_exit)


lemmas toy_eval = Let_def toy_after_init toy_env_sel example_cfg_sel stack_sel init_node_toy
  stack0_def SearchStack_init_def SearchStack_initKillers_def
  tt_is_eval_def refine_eval_def tt_move_of_def tte_type_def tte_value_def tte_move_def
  tte_depth_def ok_to_use_TT_def update_gains_def
  value_is_mate_def value_mate_in_def value_mated_in_def RazorDepth_def NullMoveMargin_def
  c_div_def VALUE_DRAW_def UseIIDAtNonPVNodes_def null_R_def globals0_def

lemma search_no_cutoff:
  assumes "OnePly c \<le> depth"
    and "\<not> (AbortSearch (glob (init_node c e ply threadID w0))
             \<or> e_thread_should_stop e threadID (ext (init_node c e ply threadID w0)))"
    and "\<not> (e_is_draw e (ext (init_node c e ply threadID w0)) \<or> ply \<ge> PLY_MAX c - 1)"
    and "\<not> value_mated_in c ply \<ge> beta" and "\<not> value_mate_in c (ply + 1) < beta"
    and "\<not> (case e_tt_retrieve e (excl \<noteq> 0) (ext (init_node c e ply threadID w0)) of
               Some t \<Rightarrow> ok_to_use_TT c t depth beta ply | None \<Rightarrow> False)"
  shows "search c e r beta depth ply an threadID excl w0
           = search_after_probe c e r beta depth ply an threadID excl
               (e_tt_retrieve e (excl \<noteq> 0) (ext (init_node c e ply threadID w0)))
               (tt_move_of c (e_tt_retrieve e (excl \<noteq> 0) (ext (init_node c e ply threadID w0))))
               (init_node c e ply threadID w0)"
  using assms by (simp add: search_def Let_def)

subsection \<open>Transposition table cutoff\<close>

lemma search_TTCutoff:
  assumes "search c e r beta depth ply an threadID excl w0 = Some (TTCutoff, v, w')"
  shows "\<exists>t. e_tt_retrieve e (excl \<noteq> 0) (ext (init_node c e ply threadID w0)) = Some t
            \<and> ok_to_use_TT c t depth beta ply \<and> v = value_from_tt c (tte_value t) ply"
  using assms
  by (auto simp: search_def Let_def split: option.splits if_splits
      dest: search_after_probe_exit)

lemma search_at_probe:
  assumes "OnePly c \<le> depth"
    and "w = init_node c e ply threadID w0"
    and "\<not> (AbortSearch (glob w) \<or> e_thread_should_stop e threadID (ext w))"
    and "\<not> (e_is_draw e (ext w) \<or> ply \<ge> PLY_MAX c - 1)"
    and "\<not> value_mated_in c ply \<ge> beta" and "\<not> value_mate_in c (ply + 1) < beta"
  shows "search c e r beta depth ply an threadID excl w0
           = (case e_tt_retrieve e (excl \<noteq> 0) (ext w) of
                Some t \<Rightarrow>
                  if ok_to_use_TT c t depth beta ply
                  then Some (TTCutoff, value_from_tt c (tte_value t) ply,
                             upd_ss ply (\<lambda>s. s\<lparr> currentMove := uint (tte_move t) \<rparr>) w)
                  else search_after_probe c e r beta depth ply an threadID excl (Some t)
                         (uint (tte_move t)) w
              | None \<Rightarrow>
                  search_after_probe c e r beta depth ply an threadID excl None (MOVE_NONE c) w)"
  using assms by (simp add: search_def Let_def tt_move_of_def split: option.splits)

lemma ok_to_use_TT_iff:
  "ok_to_use_TT c tte d beta p =
     (let v = value_from_tt c (tte_value tte) p
      in (tte_depth tte \<ge> d
          \<or> (v \<ge> value_mate_in c (PLY_MAX c) \<and> v \<ge> beta)
          \<or> (v < value_mated_in c (PLY_MAX c) \<and> v < beta))
         \<and> ((is_lower_bound c (tte_type tte) \<and> v \<ge> beta)
              \<or> (is_upper_bound c (tte_type tte) \<and> v < beta)))"
  by (auto simp: ok_to_use_TT_def Let_def)

text \<open>
  C1, as the code has it. \<open>ok_to_use_TT\<close> holds exactly when the entry is deep enough,
  or its ply-adjusted value \<open>v\<close> is a mate score on the side of \<open>beta\<close> asked for
  (\<open>v >= value_mate_in(PLY_MAX)\<close> and \<open>v >= beta\<close>, or
  \<open>v < value_mated_in(PLY_MAX)\<close>, strictly, and \<open>v < beta\<close>), and the bound fits
  \<open>beta\<close>: a lower bound with \<open>v >= beta\<close> or an upper bound with
  \<open>v < beta\<close>. Once the zero-window search is past its abort, draw and mate-distance
  checks, it returns the ply-adjusted value of the probed entry, with the entry's move as
  current move, if the entry passes this test; with no entry or an entry that fails the
  test it goes on with the static evaluation and the rest of the function. No other return
  of \<open>search\<close> is the table cutoff.
\<close>

theorem ok_to_use_TT_cutoff:
  "ok_to_use_TT c tte d beta p =
     (let v = value_from_tt c (tte_value tte) p
      in (tte_depth tte \<ge> d
          \<or> (v \<ge> value_mate_in c (PLY_MAX c) \<and> v \<ge> beta)
          \<or> (v < value_mated_in c (PLY_MAX c) \<and> v < beta))
         \<and> ((is_lower_bound c (tte_type tte) \<and> v \<ge> beta)
              \<or> (is_upper_bound c (tte_type tte) \<and> v < beta)))
   \<and> (OnePly c \<le> d
        \<and> w = init_node c e p threadID w0
        \<and> \<not> (AbortSearch (glob w) \<or> e_thread_should_stop e threadID (ext w))
        \<and> \<not> (e_is_draw e (ext w) \<or> p \<ge> PLY_MAX c - 1)
        \<and> \<not> value_mated_in c p \<ge> beta \<and> \<not> value_mate_in c (p + 1) < beta \<longrightarrow>
        search c e r beta d p an threadID excl w0
          = (case e_tt_retrieve e (excl \<noteq> 0) (ext w) of
               Some t \<Rightarrow>
                 if ok_to_use_TT c t d beta p
                 then Some (TTCutoff, value_from_tt c (tte_value t) p,
                            upd_ss p (\<lambda>s. s\<lparr> currentMove := uint (tte_move t) \<rparr>) w)
                 else search_after_probe c e r beta d p an threadID excl (Some t)
                        (uint (tte_move t)) w
             | None \<Rightarrow>
                 search_after_probe c e r beta d p an threadID excl None (MOVE_NONE c) w))
   \<and> (search c e r beta d p an threadID excl w0 = Some (TTCutoff, v', w') \<longrightarrow>
        (\<exists>t. e_tt_retrieve e (excl \<noteq> 0) (ext (init_node c e p threadID w0)) = Some t
             \<and> ok_to_use_TT c t d beta p \<and> v' = value_from_tt c (tte_value t) p))"
  using ok_to_use_TT_iff [of c tte d beta p]
        search_TTCutoff [of c e r beta d p an threadID excl w0 v' w']
        search_at_probe [of c d w e p threadID w0 beta r an excl]
  by blast

text \<open>
  The entry of \<open>tt_hit\<close> (a lower bound of 300 from depth 10) against \<open>beta = 100\<close>:
  at depth 4 it passes the test and the search returns 300; at depth 12 it is too shallow,
  the search goes on and ends after its move loop, with no move to search.
\<close>

theorem ok_to_use_TT_cutoff_witness:
  "ok_to_use_TT example_cfg (the (t_tte tt_hit)) 4 100 1
   \<and> outcome (search example_cfg toy_env toy_rec 100 4 1 True 0 0 (toy_world tt_hit))
       = Some (TTCutoff, 300)
   \<and> \<not> ok_to_use_TT example_cfg (the (t_tte tt_hit)) 12 100 1
   \<and> outcome (search example_cfg toy_env toy_rec 100 12 1 True 0 0 (toy_world tt_hit))
       = Some (NoMoveSearched, 0)"
proof -
  define T where "T = the (t_tte tt_hit)"
  have T: "t_tte tt_hit = Some T"
    by (simp add: T_def tt_hit_def)
  have nd: "\<not> t_is_draw tt_hit"
    by (simp add: tt_hit_def)
  have ok: "ok_to_use_TT example_cfg T 4 100 1" "\<not> ok_to_use_TT example_cfg T 12 100 1"
    by (simp_all add: T_def ok_to_use_TT_def tt_hit_def example_cfg_sel tte_value_def
        tte_depth_def tte_type_def value_mate_in_def value_mated_in_def Let_def)
  note shallow = ok_to_use_TT_cutoff [where c = example_cfg and e = toy_env and r = toy_rec
        and beta = 100 and d = 4 and p = 1 and an = True and threadID = 0 and excl = 0
        and ?w0.0 = "toy_world tt_hit"
        and w = "init_node example_cfg toy_env 1 0 (toy_world tt_hit)",
        THEN conjunct2, THEN conjunct1]
  note deep = ok_to_use_TT_cutoff [where c = example_cfg and e = toy_env and r = toy_rec
        and beta = 100 and d = 12 and p = 1 and an = True and threadID = 0 and excl = 0
        and ?w0.0 = "toy_world tt_hit"
        and w = "init_node example_cfg toy_env 1 0 (toy_world tt_hit)",
        THEN conjunct2, THEN conjunct1]
  have cut: "search example_cfg toy_env toy_rec 100 4 1 True 0 0 (toy_world tt_hit)
          = Some (TTCutoff, value_from_tt example_cfg (tte_value T) 1,
                  upd_ss 1 (\<lambda>s. s\<lparr> currentMove := uint (tte_move T) \<rparr>)
                    (init_node example_cfg toy_env 1 0 (toy_world tt_hit)))"
    using shallow ok(1) T nd
    by (simp add: toy_after_init toy_env_sel example_cfg_sel(1-3) value_mate_in_def
        value_mated_in_def)
  have go_on: "search example_cfg toy_env toy_rec 100 12 1 True 0 0 (toy_world tt_hit)
          = search_after_probe example_cfg toy_env toy_rec 100 12 1 True 0 0
              (Some T) (uint (tte_move T))
              (init_node example_cfg toy_env 1 0 (toy_world tt_hit))"
    using deep ok(2) T nd
    by (simp add: toy_after_init toy_env_sel example_cfg_sel(1-3) value_mate_in_def
        value_mated_in_def)
  have rest: "outcome (search_after_probe example_cfg toy_env toy_rec 100 12 1 True 0 0
              (Some T) (uint (tte_move T))
              (init_node example_cfg toy_env 1 0 (toy_world tt_hit)))
          = Some (NoMoveSearched, 0)"
    by (simp add: T_def search_after_probe_def search_pruning_def search_null_move_def
        search_iid_def search_moves_def search_epilogue_def Let_def toy_after_init toy_env_sel
        example_cfg_sel stack_sel tt_hit_def tt_is_eval_def refine_eval_def tte_type_def
        tte_value_def tte_move_def toy_rec_def update_gains_def init_node_toy stack0_def
        SearchStack_init_def SearchStack_initKillers_def
        value_is_mate_def value_mate_in_def value_mated_in_def RazorDepth_def
        NullMoveMargin_def c_div_def outcome_def VALUE_DRAW_def UseIIDAtNonPVNodes_def)
  show ?thesis
    using ok cut go_on rest
    by (simp add: T_def outcome_def example_cfg_sel tt_hit_def tte_value_def)
qed

text \<open>
  At the mate threshold itself the test and the specification's wording part: an upper
  bound whose ply-adjusted value is exactly \<open>value_mated_in(PLY_MAX)\<close>, below
  \<open>beta = 0\<close> and too shallow for depth 4, is usable by the wording and not by
  \<open>ok_to_use_TT\<close>.
\<close>

theorem ok_to_use_TT_boundary_counterexample:
  "value_from_tt example_cfg (tte_value mated_bound) 1
     = value_mated_in example_cfg (PLY_MAX example_cfg)
   \<and> ok_to_use_TT_spec example_cfg mated_bound 4 0 1
   \<and> \<not> ok_to_use_TT example_cfg mated_bound 4 0 1"
  by (simp add: ok_to_use_TT_def ok_to_use_TT_spec_def mated_bound_def example_cfg_sel
      tte_value_def tte_depth_def tte_type_def value_mate_in_def value_mated_in_def Let_def)

subsection \<open>The table at PV nodes\<close>

lemma init_node_tt [simp]:
  "init_node c (e\<lparr> e_tt_retrieve := f \<rparr>) = init_node c e"
  by (intro ext) (simp add: init_node_def Let_def cong: prod.case_cong if_cong split del: if_split)

lemma extension_tt [simp]:
  "extension c (e\<lparr> e_tt_retrieve := f \<rparr>) = extension c e"
  by (intro ext) (simp add: extension_def Let_def cong: if_cong split del: if_split)

lemma update_gains_tt [simp]:
  "update_gains c (e\<lparr> e_tt_retrieve := f \<rparr>) = update_gains c e"
  by (intro ext) (simp add: update_gains_def)

lemma update_history_tt [simp]:
  "update_history (e\<lparr> e_tt_retrieve := f \<rparr>) = update_history e"
  by (intro ext) (simp add: update_history_def cong: if_cong)

lemma search_pv_move_tt [simp]:
  "search_pv_move c (e\<lparr> e_tt_retrieve := f \<rparr>) r depth ply threadID en
     = search_pv_move c e r depth ply threadID en"
  by (intro ext)
     (simp add: search_pv_move_def Let_def
        cong: if_cong option.case_cong prod.case_cong split del: if_split)

lemma search_pv_epilogue_tt [simp]:
  "search_pv_epilogue c (e\<lparr> e_tt_retrieve := f \<rparr>) depth ply threadID en st
     = search_pv_epilogue c e depth ply threadID en st"
  by (simp add: search_pv_epilogue_def Let_def cong: if_cong split del: if_split)

lemma search_pv_moves_tt [simp]:
  "search_pv_moves c (e\<lparr> e_tt_retrieve := f \<rparr>) r depth ply threadID en
     = search_pv_moves c e r depth ply threadID en"
  by (simp add: search_pv_moves_def cong: option.case_cong)







lemma qsearch_move_tt [simp]:
  "qsearch_move c (e\<lparr> e_tt_retrieve := f \<rparr>) = qsearch_move c e"
  by (intro ext)
     (simp add: qsearch_move_def Let_def
        cong: if_cong option.case_cong prod.case_cong split del: if_split)

lemma qsearch_epilogue_tt [simp]:
  "qsearch_epilogue c (e\<lparr> e_tt_retrieve := f \<rparr>) = qsearch_epilogue c e"
  by (intro ext)
     (simp add: qsearch_epilogue_def Let_def cong: if_cong split del: if_split)








subsection \<open>No legal moves\<close>

lemma search_moves_no_move:
  "e_moves e (se_ttMove en) depth ply True (se_w en) = [] \<Longrightarrow>
   search_moves c e r beta depth ply threadID 0 en
     = Some (NoMoveSearched,
             (if e_is_check e (ext (se_w en)) then value_mated_in c ply else VALUE_DRAW),
             se_w en)"
  by (simp add: search_moves_def search_epilogue_def Let_def)

lemma search_pv_moves_no_move:
  "e_moves e (pe_ttMove en) depth ply True (pe_w en) = [] \<Longrightarrow>
   search_pv_moves c e r depth ply threadID en
     = Some (NoMoveSearched,
             (if pe_isCheck en then value_mated_in c ply else VALUE_DRAW), pe_w en)"
  by (simp add: search_pv_moves_def search_pv_epilogue_def Let_def)

lemma search_pruning_in_check:
  "e_is_check e (ext w) \<Longrightarrow>
   search_pruning c e r beta depth ply an threadID tte ttMove w
     = Some (Continue \<lparr> se_tte = tte, se_ttMove = ttMove, se_isCheck = True,
                         se_mateThreat = False, se_futilityValue = - VALUE_INFINITE c,
                         se_w = w \<rparr>)"
  by (simp add: search_pruning_def search_iid_def Let_def)

lemma search_pv_no_move_plain:
  assumes "OnePly c \<le> depth"
    and "\<not> (AbortSearch (glob (init_node c e ply threadID w0))
             \<or> e_thread_should_stop e threadID (ext (init_node c e ply threadID w0)))"
    and "\<not> (e_is_draw e (ext (init_node c e ply threadID w0)) \<or> ply \<ge> PLY_MAX c - 1)"
    and "max (value_mated_in c ply) alpha < min (value_mate_in c (ply + 1)) beta"
    and "\<not> (depth \<ge> 5 * OnePly c
             \<and> tt_move_of c (e_tt_retrieve e False (ext (init_node c e ply threadID w0)))
                 = MOVE_NONE c)"
    and "w1 = init_node c e ply threadID w0"
    and "w' = upd_ss ply (\<lambda>s. s\<lparr> eval := fst (e_evaluate e threadID (ext w1)) \<rparr>) w1"
    and "w2 = (if e_is_check e (ext w1) then w1
               else upd_ext (update_gains c e (currentMove (ss w' (ply - 1)))
                               (eval (ss w' (ply - 1))) (eval (ss w' ply))) w')"
    and "e_moves e (tt_move_of c (e_tt_retrieve e False (ext (init_node c e ply threadID w0))))
           depth ply True w2 = []"
  shows "search_pv c e r alpha beta depth ply threadID w0
           = Some (NoMoveSearched,
                   (if e_is_check e (ext w1) then value_mated_in c ply else VALUE_DRAW), w2)"
proof -
  have "search_pv_prologue c e r alpha beta depth ply threadID w0
          = Some (Continue \<lparr> pe_oldAlpha = alpha,
                 pe_alpha = max (value_mated_in c ply) alpha,
                 pe_beta = min (value_mate_in c (ply + 1)) beta,
                 pe_tte = e_tt_retrieve e False (ext (init_node c e ply threadID w0)),
                 pe_ttMove = tt_move_of c (e_tt_retrieve e False (ext (init_node c e ply threadID w0))),
                 pe_isCheck = e_is_check e (ext w1),
                 pe_mateThreat = e_has_mate_threat e (ext w2), pe_w = w2 \<rparr>)"
    using assms(2-5) unfolding assms(6-8)
    by (auto simp: search_pv_prologue_def Let_def UseIIDAtPVNodes_def)
  then show ?thesis
    using assms(1,9)
    by (simp add: search_pv_def search_pv_moves_no_move)
qed

lemma search_pv_no_move_iid:
  assumes "OnePly c \<le> depth"
    and "\<not> (AbortSearch (glob (init_node c e ply threadID w0))
             \<or> e_thread_should_stop e threadID (ext (init_node c e ply threadID w0)))"
    and "\<not> (e_is_draw e (ext (init_node c e ply threadID w0)) \<or> ply \<ge> PLY_MAX c - 1)"
    and "max (value_mated_in c ply) alpha < min (value_mate_in c (ply + 1)) beta"
    and "depth \<ge> 5 * OnePly c"
    and "tt_move_of c (e_tt_retrieve e False (ext (init_node c e ply threadID w0))) = MOVE_NONE c"
    and "r_search_pv r (max (value_mated_in c ply) alpha) (min (value_mate_in c (ply + 1)) beta)
           (depth - 2 * OnePly c) ply threadID (init_node c e ply threadID w0) = Some (vi, w1)"
    and "w' = upd_ss ply (\<lambda>s. s\<lparr> eval := fst (e_evaluate e threadID (ext w1)) \<rparr>) w1"
    and "w2 = (if e_is_check e (ext w1) then w1
               else upd_ext (update_gains c e (currentMove (ss w' (ply - 1)))
                               (eval (ss w' (ply - 1))) (eval (ss w' ply))) w')"
    and "e_moves e (pv (ss w1 ply) ply) depth ply True w2 = []"
  shows "search_pv c e r alpha beta depth ply threadID w0
           = Some (NoMoveSearched,
                   (if e_is_check e (ext w1) then value_mated_in c ply else VALUE_DRAW), w2)"
proof -
  have "search_pv_prologue c e r alpha beta depth ply threadID w0
          = Some (Continue \<lparr> pe_oldAlpha = alpha,
                 pe_alpha = max (value_mated_in c ply) alpha,
                 pe_beta = min (value_mate_in c (ply + 1)) beta,
                 pe_tte = e_tt_retrieve e False (ext w1),
                 pe_ttMove = pv (ss w1 ply) ply,
                 pe_isCheck = e_is_check e (ext w1),
                 pe_mateThreat = e_has_mate_threat e (ext w2), pe_w = w2 \<rparr>)"
    using assms(2-7) unfolding assms(8-9)
    by (auto simp: search_pv_prologue_def Let_def UseIIDAtPVNodes_def)
  then show ?thesis
    using assms(1,10)
    by (simp add: search_pv_def search_pv_moves_no_move)
qed

lemma search_in_check_no_move:
  assumes "OnePly c \<le> depth"
    and "\<not> (AbortSearch (glob (init_node c e ply threadID w0))
             \<or> e_thread_should_stop e threadID (ext (init_node c e ply threadID w0)))"
    and "\<not> (e_is_draw e (ext (init_node c e ply threadID w0)) \<or> ply \<ge> PLY_MAX c - 1)"
    and "\<not> value_mated_in c ply \<ge> beta" and "\<not> value_mate_in c (ply + 1) < beta"
    and "\<not> (case e_tt_retrieve e False (ext (init_node c e ply threadID w0)) of
               Some t \<Rightarrow> ok_to_use_TT c t depth beta ply | None \<Rightarrow> False)"
    and "e_is_check e (ext (init_node c e ply threadID w0))"
    and "e_moves e (tt_move_of c (e_tt_retrieve e False (ext (init_node c e ply threadID w0))))
           depth ply True (init_node c e ply threadID w0) = []"
  shows "search c e r beta depth ply an threadID 0 w0
           = Some (NoMoveSearched, value_mated_in c ply, init_node c e ply threadID w0)"
proof -
  have "search c e r beta depth ply an threadID 0 w0
          = search_after_probe c e r beta depth ply an threadID 0
               (e_tt_retrieve e (0 \<noteq> (0::int)) (ext (init_node c e ply threadID w0)))
               (tt_move_of c (e_tt_retrieve e (0 \<noteq> (0::int)) (ext (init_node c e ply threadID w0))))
               (init_node c e ply threadID w0)"
    using assms(1-6) by (intro search_no_cutoff) simp_all
  then show ?thesis
    using assms(7,8)
    by (simp add: search_after_probe_def search_pruning_in_check search_moves_no_move)
qed

lemma search_pruning_quiet:
  fixes c e ply threadID tte w
  defines "sv \<equiv> (if tt_is_eval c tte then value_from_tt c (tte_value (the tte)) ply
                   else fst (e_evaluate e threadID (ext w)))"
  defines "w' \<equiv> upd_ss ply (\<lambda>s. s\<lparr> eval := sv \<rparr>) w"
  defines "w1 \<equiv> upd_ext (update_gains c e (currentMove (ss w' (ply - 1)))
                        (eval (ss w' (ply - 1))) (eval (ss w' ply))) w'"
  assumes "\<not> e_is_check e (ext w)"
    and "\<not> (an \<and> depth < RazorDepth c
             \<and> refine_eval c tte sv ply - FutilityMargins c depth \<ge> beta)"
    and "\<not> (an \<and> depth > OnePly c \<and> \<not> value_is_mate c beta
             \<and> e_non_pawn_material_stm e (ext w1) \<noteq> 0
             \<and> refine_eval c tte sv ply \<ge> beta - NullMoveMargin)"
    and "\<not> (\<not> value_is_mate c beta \<and> depth < RazorDepth c
             \<and> refine_eval c tte sv ply < beta - (NullMoveMargin + 16 * depth)
             \<and> currentMove (ss w1 (ply - 1)) \<noteq> MOVE_NULL c
             \<and> ttMove = MOVE_NONE c
             \<and> \<not> e_has_pawn_on_7th e (ext w1))"
  shows "search_pruning c e r beta depth ply an threadID tte ttMove w
           = search_iid c e r beta depth ply threadID tte ttMove False
               (sv + FutilityMargins c depth) False w1"
  using assms(4-) unfolding w1_def w'_def sv_def
  by (cases "tt_is_eval c tte") (auto simp: search_pruning_def Let_def)

lemma search_quiet_no_move:
  fixes c e r beta depth ply an threadID w0 vj wj ttMove
  defines "w \<equiv> init_node c e ply threadID w0"
  defines "tte \<equiv> e_tt_retrieve e False (ext w)"
  defines "sv \<equiv> (if tt_is_eval c tte then value_from_tt c (tte_value (the tte)) ply
                   else fst (e_evaluate e threadID (ext w)))"
  defines "w' \<equiv> upd_ss ply (\<lambda>s. s\<lparr> eval := sv \<rparr>) w"
  defines "w1 \<equiv> upd_ext (update_gains c e (currentMove (ss w' (ply - 1)))
                        (eval (ss w' (ply - 1))) (eval (ss w' ply))) w'"
  assumes depth: "OnePly c \<le> depth"
    and pre: "\<not> (AbortSearch (glob w) \<or> e_thread_should_stop e threadID (ext w))"
      "\<not> (e_is_draw e (ext w) \<or> ply \<ge> PLY_MAX c - 1)"
      "\<not> value_mated_in c ply \<ge> beta" "\<not> value_mate_in c (ply + 1) < beta"
      "\<not> (case tte of Some t \<Rightarrow> ok_to_use_TT c t depth beta ply | None \<Rightarrow> False)"
    and quiet: "\<not> e_is_check e (ext w)"
      "\<not> (an \<and> depth < RazorDepth c
             \<and> refine_eval c tte sv ply - FutilityMargins c depth \<ge> beta)"
      "\<not> (an \<and> depth > OnePly c \<and> \<not> value_is_mate c beta
             \<and> e_non_pawn_material_stm e (ext w1) \<noteq> 0
             \<and> refine_eval c tte sv ply \<ge> beta - NullMoveMargin)"
      "\<not> (\<not> value_is_mate c beta \<and> depth < RazorDepth c
             \<and> refine_eval c tte sv ply < beta - (NullMoveMargin + 16 * depth)
             \<and> currentMove (ss w1 (ply - 1)) \<noteq> MOVE_NULL c
             \<and> tt_move_of c tte = MOVE_NONE c
             \<and> \<not> e_has_pawn_on_7th e (ext w1))"
    and iid: "if tt_move_of c tte = MOVE_NONE c \<and> depth \<ge> 8 * OnePly c
                 \<and> sv \<ge> beta - IIDMargin
              then r_search r beta (min (c_div depth 2) (depth - 2 * OnePly c)) ply False threadID
                     (MOVE_NONE c) w1 = Some (vj, wj)
                   \<and> ttMove = pv (ss wj ply) ply
              else wj = w1 \<and> ttMove = tt_move_of c tte"
    and none: "e_moves e ttMove depth ply True wj = []"
  shows "search c e r beta depth ply an threadID 0 w0
           = Some (NoMoveSearched,
                   (if e_is_check e (ext wj) then value_mated_in c ply else VALUE_DRAW), wj)"
proof -
  have ev: "eval (ss w1 ply) = sv"
    by (simp add: w1_def w'_def stack_sel)
  have "search c e r beta depth ply an threadID 0 w0
          = search_after_probe c e r beta depth ply an threadID 0
               (e_tt_retrieve e (0 \<noteq> (0::int)) (ext (init_node c e ply threadID w0)))
               (tt_move_of c (e_tt_retrieve e (0 \<noteq> (0::int)) (ext (init_node c e ply threadID w0))))
               (init_node c e ply threadID w0)"
    using depth pre unfolding tte_def w_def by (intro search_no_cutoff) simp_all
  then have start: "search c e r beta depth ply an threadID 0 w0
          = search_after_probe c e r beta depth ply an threadID 0 tte (tt_move_of c tte) w"
    by (simp add: tte_def w_def)
  have prune: "search_pruning c e r beta depth ply an threadID tte (tt_move_of c tte) w
           = search_iid c e r beta depth ply threadID tte (tt_move_of c tte) False
               (sv + FutilityMargins c depth) False w1"
    unfolding w1_def w'_def sv_def
    by (rule search_pruning_quiet) (use quiet in \<open>simp_all add: w1_def w'_def sv_def\<close>)
  have "\<exists>en. search_iid c e r beta depth ply threadID tte (tt_move_of c tte) False
               (sv + FutilityMargins c depth) False w1 = Some (Continue en)
             \<and> se_ttMove en = ttMove \<and> se_w en = wj"
    using iid by (auto simp: search_iid_def ev UseIIDAtNonPVNodes_def split: if_splits)
  then obtain en where en: "search_iid c e r beta depth ply threadID tte (tt_move_of c tte) False
               (sv + FutilityMargins c depth) False w1 = Some (Continue en)"
      "se_ttMove en = ttMove" "se_w en = wj"
    by blast
  show ?thesis
    using none by (simp add: start search_after_probe_def prune en search_moves_no_move)
qed

lemma qsearch_in_check_no_move:
  assumes "\<not> (AbortSearch (glob (init_node c e ply threadID w0))
             \<or> e_thread_should_stop e threadID (ext (init_node c e ply threadID w0)))"
    and "\<not> (e_is_draw e (ext (init_node c e ply threadID w0)) \<or> ply \<ge> PLY_MAX c - 1)"
    and "\<not> (beta - alpha = 1
             \<and> (case e_tt_retrieve e False (ext (init_node c e ply threadID w0)) of
                  Some t \<Rightarrow> ok_to_use_TT c t depth beta ply | None \<Rightarrow> False))"
    and "e_is_check e (ext (init_node c e ply threadID w0))"
    and "- VALUE_INFINITE c < beta"
    and "e_moves e (tt_move_of c (e_tt_retrieve e False (ext (init_node c e ply threadID w0))))
           (if depth = - OnePly c \<and> - VALUE_INFINITE c \<ge> beta - c_div (PawnValueMidgame c) 8
            then 0 else depth)
           ply False (init_node c e ply threadID w0) = []"
  shows "qsearch c e r alpha beta depth ply threadID w0
           = Some (NoMoveSearched, value_mated_in c ply, init_node c e ply threadID w0)"
  using assms
  by (auto simp: qsearch_def qsearch_epilogue_def Let_def)

text \<open>
  C3, as the code has it. The side to move has no legal move: the move picker hands out no
  move. \<open>search_pv\<close> at one ply or more, past its abort, draw and mate-distance
  checks, returns \<open>value_mated_in(ply)\<close> if the side to move is in check and
  \<open>VALUE_DRAW\<close> if not, also after internal iterative deepening. \<open>search\<close> with
  no excluded move, past the same checks and the table cutoff, returns
  \<open>value_mated_in(ply)\<close> for a side in check; for a side not in check it returns
  \<open>VALUE_DRAW\<close> when none of static null move pruning, the null move search and
  razoring applies. \<open>qsearch\<close>, where a search below one ply ends, returns
  \<open>value_mated_in(ply)\<close> for a side in check, past its abort and draw checks and its
  table cutoff. In each case the world is as the part before the move loop left it: no move
  was made or searched.
\<close>

theorem no_legal_moves_result:
  "(let w = init_node c e ply threadID w0;
        alpha' = max (value_mated_in c ply) alpha;
        beta' = min (value_mate_in c (ply + 1)) beta;
        tte = e_tt_retrieve e False (ext w);
        w' = upd_ss ply (\<lambda>s. s\<lparr> eval := fst (e_evaluate e threadID (ext w1)) \<rparr>) w1;
        w2 = (if e_is_check e (ext w1) then w1
              else upd_ext (update_gains c e (currentMove (ss w' (ply - 1)))
                              (eval (ss w' (ply - 1))) (eval (ss w' ply))) w')
    in OnePly c \<le> depth
       \<and> \<not> (AbortSearch (glob w) \<or> e_thread_should_stop e threadID (ext w))
       \<and> \<not> (e_is_draw e (ext w) \<or> ply \<ge> PLY_MAX c - 1)
       \<and> alpha' < beta'
       \<and> (if depth \<ge> 5 * OnePly c \<and> tt_move_of c tte = MOVE_NONE c
            then r_search_pv r alpha' beta' (depth - 2 * OnePly c) ply threadID w = Some (vi, w1)
                 \<and> ttMove = pv (ss w1 ply) ply
            else w1 = w \<and> ttMove = tt_move_of c tte)
       \<and> e_moves e ttMove depth ply True w2 = []
       \<longrightarrow>
         search_pv c e r alpha beta depth ply threadID w0
           = Some (NoMoveSearched,
                   (if e_is_check e (ext w1) then value_mated_in c ply else VALUE_DRAW), w2))
   \<and> (let w = init_node c e ply threadID w0;
          tte = e_tt_retrieve e False (ext w)
      in OnePly c \<le> depth
         \<and> \<not> (AbortSearch (glob w) \<or> e_thread_should_stop e threadID (ext w))
         \<and> \<not> (e_is_draw e (ext w) \<or> ply \<ge> PLY_MAX c - 1)
         \<and> \<not> value_mated_in c ply \<ge> beta \<and> \<not> value_mate_in c (ply + 1) < beta
         \<and> \<not> (case tte of Some t \<Rightarrow> ok_to_use_TT c t depth beta ply | None \<Rightarrow> False)
         \<and> e_is_check e (ext w)
         \<and> e_moves e (tt_move_of c tte) depth ply True w = []
         \<longrightarrow>
           search c e r beta depth ply an threadID 0 w0
             = Some (NoMoveSearched, value_mated_in c ply, w))
   \<and> (let w = init_node c e ply threadID w0;
          tte = e_tt_retrieve e False (ext w);
          sv = (if tt_is_eval c tte then value_from_tt c (tte_value (the tte)) ply
                else fst (e_evaluate e threadID (ext w)));
          staticValue = refine_eval c tte sv ply;
          w' = upd_ss ply (\<lambda>s. s\<lparr> eval := sv \<rparr>) w;
          w1 = upd_ext (update_gains c e (currentMove (ss w' (ply - 1)))
                          (eval (ss w' (ply - 1))) (eval (ss w' ply))) w'
      in OnePly c \<le> depth
         \<and> \<not> (AbortSearch (glob w) \<or> e_thread_should_stop e threadID (ext w))
         \<and> \<not> (e_is_draw e (ext w) \<or> ply \<ge> PLY_MAX c - 1)
         \<and> \<not> value_mated_in c ply \<ge> beta \<and> \<not> value_mate_in c (ply + 1) < beta
         \<and> \<not> (case tte of Some t \<Rightarrow> ok_to_use_TT c t depth beta ply | None \<Rightarrow> False)
         \<and> \<not> e_is_check e (ext w)
         \<and> \<not> (an \<and> depth < RazorDepth c \<and> staticValue - FutilityMargins c depth \<ge> beta)
         \<and> \<not> (an \<and> depth > OnePly c \<and> \<not> value_is_mate c beta
                \<and> e_non_pawn_material_stm e (ext w1) \<noteq> 0
                \<and> staticValue \<ge> beta - NullMoveMargin)
         \<and> \<not> (\<not> value_is_mate c beta \<and> depth < RazorDepth c
                \<and> staticValue < beta - (NullMoveMargin + 16 * depth)
                \<and> currentMove (ss w1 (ply - 1)) \<noteq> MOVE_NULL c
                \<and> tt_move_of c tte = MOVE_NONE c
                \<and> \<not> e_has_pawn_on_7th e (ext w1))
         \<and> (if tt_move_of c tte = MOVE_NONE c \<and> depth \<ge> 8 * OnePly c
                 \<and> sv \<ge> beta - IIDMargin
              then r_search r beta (min (c_div depth 2) (depth - 2 * OnePly c)) ply False threadID
                     (MOVE_NONE c) w1 = Some (vj, wj)
                   \<and> ttMove' = pv (ss wj ply) ply
              else wj = w1 \<and> ttMove' = tt_move_of c tte)
         \<and> e_moves e ttMove' depth ply True wj = []
         \<longrightarrow>
           search c e r beta depth ply an threadID 0 w0
             = Some (NoMoveSearched,
                     (if e_is_check e (ext wj) then value_mated_in c ply else VALUE_DRAW), wj))
   \<and> (let w = init_node c e ply threadID w0;
          tte = e_tt_retrieve e False (ext w)
      in \<not> (AbortSearch (glob w) \<or> e_thread_should_stop e threadID (ext w))
         \<and> \<not> (e_is_draw e (ext w) \<or> ply \<ge> PLY_MAX c - 1)
         \<and> \<not> (beta - alpha = 1
                \<and> (case tte of Some t \<Rightarrow> ok_to_use_TT c t depth beta ply | None \<Rightarrow> False))
         \<and> e_is_check e (ext w)
         \<and> - VALUE_INFINITE c < beta
         \<and> e_moves e (tt_move_of c tte)
               (if depth = - OnePly c \<and> - VALUE_INFINITE c \<ge> beta - c_div (PawnValueMidgame c) 8
                then 0 else depth)
               ply False w = []
         \<longrightarrow>
           qsearch c e r alpha beta depth ply threadID w0
             = Some (NoMoveSearched, value_mated_in c ply, w))"
proof (intro conjI)
  show "let w = init_node c e ply threadID w0;
        alpha' = max (value_mated_in c ply) alpha;
        beta' = min (value_mate_in c (ply + 1)) beta;
        tte = e_tt_retrieve e False (ext w);
        w' = upd_ss ply (\<lambda>s. s\<lparr> eval := fst (e_evaluate e threadID (ext w1)) \<rparr>) w1;
        w2 = (if e_is_check e (ext w1) then w1
              else upd_ext (update_gains c e (currentMove (ss w' (ply - 1)))
                              (eval (ss w' (ply - 1))) (eval (ss w' ply))) w')
    in OnePly c \<le> depth
       \<and> \<not> (AbortSearch (glob w) \<or> e_thread_should_stop e threadID (ext w))
       \<and> \<not> (e_is_draw e (ext w) \<or> ply \<ge> PLY_MAX c - 1)
       \<and> alpha' < beta'
       \<and> (if depth \<ge> 5 * OnePly c \<and> tt_move_of c tte = MOVE_NONE c
            then r_search_pv r alpha' beta' (depth - 2 * OnePly c) ply threadID w = Some (vi, w1)
                 \<and> ttMove = pv (ss w1 ply) ply
            else w1 = w \<and> ttMove = tt_move_of c tte)
       \<and> e_moves e ttMove depth ply True w2 = []
       \<longrightarrow>
         search_pv c e r alpha beta depth ply threadID w0
           = Some (NoMoveSearched,
                   (if e_is_check e (ext w1) then value_mated_in c ply else VALUE_DRAW), w2)"
    unfolding Let_def
  proof (intro impI, elim conjE)
    assume a: "OnePly c \<le> depth"
      "\<not> (AbortSearch (glob (init_node c e ply threadID w0))
             \<or> e_thread_should_stop e threadID (ext (init_node c e ply threadID w0)))"
      "\<not> (e_is_draw e (ext (init_node c e ply threadID w0)) \<or> ply \<ge> PLY_MAX c - 1)"
      "max (value_mated_in c ply) alpha < min (value_mate_in c (ply + 1)) beta"
    assume i: "if depth \<ge> 5 * OnePly c
                  \<and> tt_move_of c (e_tt_retrieve e False (ext (init_node c e ply threadID w0)))
                      = MOVE_NONE c
               then r_search_pv r (max (value_mated_in c ply) alpha)
                      (min (value_mate_in c (ply + 1)) beta) (depth - 2 * OnePly c) ply threadID
                      (init_node c e ply threadID w0) = Some (vi, w1)
                    \<and> ttMove = pv (ss w1 ply) ply
               else w1 = init_node c e ply threadID w0
                    \<and> ttMove = tt_move_of c (e_tt_retrieve e False (ext (init_node c e ply threadID w0)))"
    let ?w' = "upd_ss ply (\<lambda>s. s\<lparr> eval := fst (e_evaluate e threadID (ext w1)) \<rparr>) w1"
    let ?w2 = "if e_is_check e (ext w1) then w1
               else upd_ext (update_gains c e (currentMove (ss ?w' (ply - 1)))
                               (eval (ss ?w' (ply - 1))) (eval (ss ?w' ply))) ?w'"
    assume m: "e_moves e ttMove depth ply True ?w2 = []"
    show "search_pv c e r alpha beta depth ply threadID w0
           = Some (NoMoveSearched,
                   (if e_is_check e (ext w1) then value_mated_in c ply else VALUE_DRAW), ?w2)"
    proof (cases "depth \<ge> 5 * OnePly c
                  \<and> tt_move_of c (e_tt_retrieve e False (ext (init_node c e ply threadID w0)))
                      = MOVE_NONE c")
      case True
      with i have "r_search_pv r (max (value_mated_in c ply) alpha)
                      (min (value_mate_in c (ply + 1)) beta) (depth - 2 * OnePly c) ply threadID
                      (init_node c e ply threadID w0) = Some (vi, w1)"
        and "ttMove = pv (ss w1 ply) ply"
        by simp_all
      with a m True show ?thesis
        by (intro search_pv_no_move_iid [where vi = vi and w' = ?w']) simp_all
    next
      case False
      with i have "w1 = init_node c e ply threadID w0"
        and "ttMove = tt_move_of c (e_tt_retrieve e False (ext (init_node c e ply threadID w0)))"
        by simp_all
      with a m False show ?thesis
        by (intro search_pv_no_move_plain [where w' = ?w']) simp_all
    qed
  qed
next
  show "let w = init_node c e ply threadID w0;
          tte = e_tt_retrieve e False (ext w)
      in OnePly c \<le> depth
         \<and> \<not> (AbortSearch (glob w) \<or> e_thread_should_stop e threadID (ext w))
         \<and> \<not> (e_is_draw e (ext w) \<or> ply \<ge> PLY_MAX c - 1)
         \<and> \<not> value_mated_in c ply \<ge> beta \<and> \<not> value_mate_in c (ply + 1) < beta
         \<and> \<not> (case tte of Some t \<Rightarrow> ok_to_use_TT c t depth beta ply | None \<Rightarrow> False)
         \<and> e_is_check e (ext w)
         \<and> e_moves e (tt_move_of c tte) depth ply True w = []
         \<longrightarrow>
           search c e r beta depth ply an threadID 0 w0
             = Some (NoMoveSearched, value_mated_in c ply, w)"
    unfolding Let_def using search_in_check_no_move [of c depth e ply threadID w0 beta r an]
    by blast
next
  show "let w = init_node c e ply threadID w0;
          tte = e_tt_retrieve e False (ext w);
          sv = (if tt_is_eval c tte then value_from_tt c (tte_value (the tte)) ply
                else fst (e_evaluate e threadID (ext w)));
          staticValue = refine_eval c tte sv ply;
          w' = upd_ss ply (\<lambda>s. s\<lparr> eval := sv \<rparr>) w;
          w1 = upd_ext (update_gains c e (currentMove (ss w' (ply - 1)))
                          (eval (ss w' (ply - 1))) (eval (ss w' ply))) w'
      in OnePly c \<le> depth
         \<and> \<not> (AbortSearch (glob w) \<or> e_thread_should_stop e threadID (ext w))
         \<and> \<not> (e_is_draw e (ext w) \<or> ply \<ge> PLY_MAX c - 1)
         \<and> \<not> value_mated_in c ply \<ge> beta \<and> \<not> value_mate_in c (ply + 1) < beta
         \<and> \<not> (case tte of Some t \<Rightarrow> ok_to_use_TT c t depth beta ply | None \<Rightarrow> False)
         \<and> \<not> e_is_check e (ext w)
         \<and> \<not> (an \<and> depth < RazorDepth c \<and> staticValue - FutilityMargins c depth \<ge> beta)
         \<and> \<not> (an \<and> depth > OnePly c \<and> \<not> value_is_mate c beta
                \<and> e_non_pawn_material_stm e (ext w1) \<noteq> 0
                \<and> staticValue \<ge> beta - NullMoveMargin)
         \<and> \<not> (\<not> value_is_mate c beta \<and> depth < RazorDepth c
                \<and> staticValue < beta - (NullMoveMargin + 16 * depth)
                \<and> currentMove (ss w1 (ply - 1)) \<noteq> MOVE_NULL c
                \<and> tt_move_of c tte = MOVE_NONE c
                \<and> \<not> e_has_pawn_on_7th e (ext w1))
         \<and> (if tt_move_of c tte = MOVE_NONE c \<and> depth \<ge> 8 * OnePly c
                 \<and> sv \<ge> beta - IIDMargin
              then r_search r beta (min (c_div depth 2) (depth - 2 * OnePly c)) ply False threadID
                     (MOVE_NONE c) w1 = Some (vj, wj)
                   \<and> ttMove' = pv (ss wj ply) ply
              else wj = w1 \<and> ttMove' = tt_move_of c tte)
         \<and> e_moves e ttMove' depth ply True wj = []
         \<longrightarrow>
           search c e r beta depth ply an threadID 0 w0
             = Some (NoMoveSearched,
                     (if e_is_check e (ext wj) then value_mated_in c ply else VALUE_DRAW), wj)"
    unfolding Let_def
    by (intro impI, elim conjE, rule search_quiet_no_move [where vj = vj]) assumption+
next
  show "let w = init_node c e ply threadID w0;
          tte = e_tt_retrieve e False (ext w)
      in \<not> (AbortSearch (glob w) \<or> e_thread_should_stop e threadID (ext w))
         \<and> \<not> (e_is_draw e (ext w) \<or> ply \<ge> PLY_MAX c - 1)
         \<and> \<not> (beta - alpha = 1
                \<and> (case tte of Some t \<Rightarrow> ok_to_use_TT c t depth beta ply | None \<Rightarrow> False))
         \<and> e_is_check e (ext w)
         \<and> - VALUE_INFINITE c < beta
         \<and> e_moves e (tt_move_of c tte)
               (if depth = - OnePly c \<and> - VALUE_INFINITE c \<ge> beta - c_div (PawnValueMidgame c) 8
                then 0 else depth)
               ply False w = []
         \<longrightarrow>
           qsearch c e r alpha beta depth ply threadID w0
             = Some (NoMoveSearched, value_mated_in c ply, w)"
    unfolding Let_def
    using qsearch_in_check_no_move [of c e ply threadID w0 beta alpha depth r]
    by blast
qed

text \<open>
  The checkmate and the stalemate position, searched at depth one ply at ply 1 by
  \<open>search_pv\<close> and by \<open>search\<close>, and the checkmate by \<open>qsearch\<close>.
\<close>

theorem no_legal_moves_result_witness:
  "outcome (search_pv example_cfg toy_env toy_rec (- 1000) 1000 2 1 0 (toy_world checkmate))
     = Some (NoMoveSearched, - 29999)
   \<and> outcome (search_pv example_cfg toy_env toy_rec (- 1000) 1000 2 1 0 (toy_world stalemate))
     = Some (NoMoveSearched, 0)
   \<and> outcome (search example_cfg toy_env toy_rec (- 900) 2 1 True 0 0 (toy_world checkmate))
     = Some (NoMoveSearched, - 29999)
   \<and> outcome (search example_cfg toy_env toy_rec (- 900) 2 1 False 0 0 (toy_world stalemate))
     = Some (NoMoveSearched, 0)
   \<and> outcome (qsearch example_cfg toy_env toy_rec (- 901) (- 900) 0 1 0 (toy_world checkmate))
     = Some (NoMoveSearched, - 29999)"
proof -
  let ?wc = "init_node example_cfg toy_env 1 0 (toy_world checkmate)"
  let ?ws = "init_node example_cfg toy_env 1 0 (toy_world stalemate)"
  let ?wc' = "upd_ss 1 (\<lambda>s. s\<lparr> eval := fst (e_evaluate toy_env 0 (ext ?wc)) \<rparr>) ?wc"
  let ?wc2 = "if e_is_check toy_env (ext ?wc) then ?wc
              else upd_ext (update_gains example_cfg toy_env (currentMove (ss ?wc' (1 - 1)))
                              (eval (ss ?wc' (1 - 1))) (eval (ss ?wc' 1))) ?wc'"
  let ?ws' = "upd_ss 1 (\<lambda>s. s\<lparr> eval := fst (e_evaluate toy_env 0 (ext ?ws)) \<rparr>) ?ws"
  let ?ws2 = "if e_is_check toy_env (ext ?ws) then ?ws
              else upd_ext (update_gains example_cfg toy_env (currentMove (ss ?ws' (1 - 1)))
                              (eval (ss ?ws' (1 - 1))) (eval (ss ?ws' 1))) ?ws'"
  let ?tts = "e_tt_retrieve toy_env False (ext ?ws)"
  let ?svs = "if tt_is_eval example_cfg ?tts
              then value_from_tt example_cfg (tte_value (the ?tts)) 1
              else fst (e_evaluate toy_env 0 (ext ?ws))"
  let ?wq' = "upd_ss 1 (\<lambda>s. s\<lparr> eval := ?svs \<rparr>) ?ws"
  let ?wq1 = "upd_ext (update_gains example_cfg toy_env (currentMove (ss ?wq' (1 - 1)))
                         (eval (ss ?wq' (1 - 1))) (eval (ss ?wq' 1))) ?wq'"
  note pv_mate = no_legal_moves_result [where c = example_cfg and e = toy_env and r = toy_rec
      and alpha = "- 1000" and beta = 1000 and depth = 2 and ply = 1 and threadID = 0
      and ?w0.0 = "toy_world checkmate" and ?w1.0 = ?wc and ttMove = 0,
      unfolded Let_def, THEN conjunct1, THEN mp]
  note pv_stale = no_legal_moves_result [where c = example_cfg and e = toy_env and r = toy_rec
      and alpha = "- 1000" and beta = 1000 and depth = 2 and ply = 1 and threadID = 0
      and ?w0.0 = "toy_world stalemate" and ?w1.0 = ?ws and ttMove = 0,
      unfolded Let_def, THEN conjunct1, THEN mp]
  note zw_mate = no_legal_moves_result [where c = example_cfg and e = toy_env and r = toy_rec
      and beta = "- 900" and depth = 2 and ply = 1 and threadID = 0 and an = True
      and ?w0.0 = "toy_world checkmate",
      unfolded Let_def, THEN conjunct2, THEN conjunct1, THEN mp]
  note zw_stale = no_legal_moves_result [where c = example_cfg and e = toy_env and r = toy_rec
      and beta = "- 900" and depth = 2 and ply = 1 and threadID = 0 and an = False
      and ?w0.0 = "toy_world stalemate" and wj = ?wq1 and ttMove' = 0,
      unfolded Let_def, THEN conjunct2, THEN conjunct2, THEN conjunct1, THEN mp]
  note qs_mate = no_legal_moves_result [where c = example_cfg and e = toy_env and r = toy_rec
      and alpha = "- 901" and beta = "- 900" and depth = 0 and ply = 1 and threadID = 0
      and ?w0.0 = "toy_world checkmate",
      unfolded Let_def, THEN conjunct2, THEN conjunct2, THEN conjunct2, THEN mp]
  have 1: "search_pv example_cfg toy_env toy_rec (- 1000) 1000 2 1 0 (toy_world checkmate)
     = Some (NoMoveSearched,
             (if e_is_check toy_env (ext ?wc) then value_mated_in example_cfg 1 else VALUE_DRAW),
             ?wc2)"
    by (rule pv_mate) (simp add: toy_eval checkmate_def)
  have 2: "search_pv example_cfg toy_env toy_rec (- 1000) 1000 2 1 0 (toy_world stalemate)
     = Some (NoMoveSearched,
             (if e_is_check toy_env (ext ?ws) then value_mated_in example_cfg 1 else VALUE_DRAW),
             ?ws2)"
    by (rule pv_stale) (simp add: toy_eval stalemate_def)
  have 3: "search example_cfg toy_env toy_rec (- 900) 2 1 True 0 0 (toy_world checkmate)
     = Some (NoMoveSearched, value_mated_in example_cfg 1, ?wc)"
    by (rule zw_mate) (simp add: toy_eval checkmate_def)
  have 4: "search example_cfg toy_env toy_rec (- 900) 2 1 False 0 0 (toy_world stalemate)
     = Some (NoMoveSearched,
             (if e_is_check toy_env (ext ?wq1) then value_mated_in example_cfg 1 else VALUE_DRAW),
             ?wq1)"
    by (rule zw_stale) (simp add: toy_eval stalemate_def)
  have 5: "qsearch example_cfg toy_env toy_rec (- 901) (- 900) 0 1 0 (toy_world checkmate)
     = Some (NoMoveSearched, value_mated_in example_cfg 1, ?wc)"
    by (rule qs_mate) (simp add: toy_eval checkmate_def)
  show ?thesis
    unfolding 1 2 3 4 5
    by (simp add: outcome_def toy_eval checkmate_def stalemate_def)
qed

text \<open>
  A stalemated side far behind (evaluation -700), searched with \<open>beta = -900\<close> at depth
  one ply: static null move pruning returns \<open>-700 - 112\<close> before any move is asked for.
\<close>

theorem stalemate_counterexample:
  "t_moves stalemate = [] \<and> \<not> t_is_check stalemate
   \<and> outcome (search example_cfg toy_env toy_rec (- 900) 2 1 True 0 0 (toy_world stalemate))
       = Some (StaticNullMove, - 812)
   \<and> - 812 \<noteq> VALUE_DRAW"
  by (simp add: search_def search_after_probe_def search_pruning_def Let_def toy_after_init
      toy_env_sel example_cfg_sel stack_sel stalemate_def tt_move_of_def tt_is_eval_def
      refine_eval_def value_mate_in_def value_mated_in_def RazorDepth_def outcome_def
      VALUE_DRAW_def)

text \<open>
  The returns that stand before the move loop apply to these positions as to any other:
  at \<open>ply = PLY_MAX - 1\<close> the checkmate is scored as a draw, and \<open>qsearch\<close>
  returns the static evaluation of the stalemate as its stand-pat value.
\<close>

lemma no_legal_moves_early_returns:
  "outcome (search_pv example_cfg toy_env toy_rec (- 1000) 1000 2 99 0 (toy_world checkmate))
     = Some (Draw, 0)
   \<and> outcome (qsearch example_cfg toy_env toy_rec (- 901) (- 900) 0 1 0 (toy_world stalemate))
     = Some (StandPat, - 700)"
  by (simp add: search_pv_def search_pv_prologue_def qsearch_def toy_eval checkmate_def
      stalemate_def outcome_def)

subsection \<open>Null move search\<close>

lemma search_null_move_R:
  assumes "0 < OnePly c"
  shows "search_null_move c e r beta depth ply threadID staticValue w =
     (case r_search r (- (beta - 1)) (depth - null_R c depth staticValue beta * OnePly c)
             (ply + 1) False threadID (MOVE_NONE c)
             (upd_ext (e_do_null_move e) (upd_ss ply (\<lambda>s. s\<lparr> currentMove := MOVE_NULL c \<rparr>) w)) of
        None \<Rightarrow> None
      | Some (v, w2) \<Rightarrow>
         (let nullValue = - v;
              w3 = upd_ext (e_undo_null_move e) w2
          in
          if nullValue \<ge> beta
          then
           (if depth < 6 * OnePly c
            then Some (Return (NullMoveCutoff, beta, w3))
            else
             (case r_search r beta (depth - 5 * OnePly c) ply False threadID (MOVE_NONE c) w3 of
                None \<Rightarrow> None
              | Some (v', w4) \<Rightarrow>
                  if v' \<ge> beta then Some (Return (NullMoveCutoff, beta, w4))
                  else Some (Continue (False, w4))))
          else
           (let mateThreat = (nullValue = value_mated_in c (ply + 2));
                w4 = upd_ss ply (\<lambda>s. s\<lparr> threatMove := currentMove (ss w3 (ply + 1)) \<rparr>) w3
            in
            if depth < ThreatDepth c \<and> reduction (ss w4 (ply - 1)) \<noteq> 0
               \<and> e_connected_moves e (currentMove (ss w4 (ply - 1))) (threatMove (ss w4 ply)) (ext w4)
            then Some (Return (ThreatFailLow, beta - 1, w4))
            else Some (Continue (mateThreat, w4)))))"
proof -
  have "depth \<ge> 5 * OnePly c \<Longrightarrow> c_div depth 8 = depth div 8"
    using assms by (intro c_div_nonneg) auto
  then have R: "(let R0 = 3 + (if depth \<ge> 5 * OnePly c then c_div depth 8 else 0)
              in if staticValue - beta > PawnValueMidgame c then R0 + 1 else R0)
             = null_R c depth staticValue beta"
    by (simp add: null_R_def Let_def)
  show ?thesis
    unfolding search_null_move_def R [symmetric] by (simp add: Let_def)
qed


lemma search_pruning_null_move:
  fixes c e ply threadID tte w
  defines "sv \<equiv> (if tt_is_eval c tte then value_from_tt c (tte_value (the tte)) ply
                   else fst (e_evaluate e threadID (ext w)))"
  defines "w' \<equiv> upd_ss ply (\<lambda>s. s\<lparr> eval := sv \<rparr>) w"
  defines "w1 \<equiv> upd_ext (update_gains c e (currentMove (ss w' (ply - 1)))
                        (eval (ss w' (ply - 1))) (eval (ss w' ply))) w'"
  assumes "OnePly c < depth"
    and "\<not> e_is_check e (ext w)"
    and "\<not> (depth < RazorDepth c \<and> refine_eval c tte sv ply - FutilityMargins c depth \<ge> beta)"
    and "\<not> value_is_mate c beta"
    and "e_non_pawn_material_stm e (ext w1) \<noteq> 0"
    and "refine_eval c tte sv ply \<ge> beta - NullMoveMargin"
  shows "search_pruning c e r beta depth ply True threadID tte ttMove w
           = (case search_null_move c e r beta depth ply threadID (refine_eval c tte sv ply) w1 of
                None \<Rightarrow> None
              | Some (Return res) \<Rightarrow> Some (Return res)
              | Some (Continue (mateThreat, w2)) \<Rightarrow>
                  search_iid c e r beta depth ply threadID tte ttMove False
                    (sv + FutilityMargins c depth) mateThreat w2)"
  using assms(4-) unfolding w1_def w'_def sv_def
  by (cases "tt_is_eval c tte") (simp_all add: search_pruning_def Let_def cong: conj_cong)

text \<open>
  C4. \<open>search\<close> is past its early returns and the table gave no cutoff; the side to
  move is not in check, static null move pruning does not apply, and the guard of the null
  move block holds: null moves are allowed, the depth is above one ply, \<open>beta\<close> is no
  mate score, the side to move has a piece, and the static value, which is the static
  evaluation refined by the table entry, is at least \<open>beta - NullMoveMargin\<close>. Then the
  position after the null move is searched with the depth lowered by \<open>R\<close> plies,
  \<open>R\<close> as the specification writes it, computed from that static value. When this
  search fails high (\<open>-v >= beta\<close>), \<open>search\<close> returns \<open>beta\<close> at once if
  \<open>depth < 6 * OnePly\<close>; from \<open>6 * OnePly\<close> on it searches the position itself
  without null move at \<open>depth - 5 * OnePly\<close>, returns \<open>beta\<close> if that search
  reaches \<open>beta\<close> too, and otherwise goes on to internal iterative deepening and the
  move loop.
\<close>

theorem null_move_search:
  "(let w = init_node c e ply threadID w0;
        tte = e_tt_retrieve e (excl \<noteq> 0) (ext w);
        sv = (if tt_is_eval c tte then value_from_tt c (tte_value (the tte)) ply
              else fst (e_evaluate e threadID (ext w)));
        staticValue = refine_eval c tte sv ply;
        w' = upd_ss ply (\<lambda>s. s\<lparr> eval := sv \<rparr>) w;
        w1 = upd_ext (update_gains c e (currentMove (ss w' (ply - 1)))
                        (eval (ss w' (ply - 1))) (eval (ss w' ply))) w';
        wn = upd_ext (e_do_null_move e) (upd_ss ply (\<lambda>s. s\<lparr> currentMove := MOVE_NULL c \<rparr>) w1);
        w3 = upd_ext (e_undo_null_move e) w2
    in 0 < OnePly c \<and> OnePly c < depth
       \<and> \<not> (AbortSearch (glob w) \<or> e_thread_should_stop e threadID (ext w))
       \<and> \<not> (e_is_draw e (ext w) \<or> ply \<ge> PLY_MAX c - 1)
       \<and> \<not> value_mated_in c ply \<ge> beta \<and> \<not> value_mate_in c (ply + 1) < beta
       \<and> \<not> (case tte of Some t \<Rightarrow> ok_to_use_TT c t depth beta ply | None \<Rightarrow> False)
       \<and> \<not> e_is_check e (ext w)
       \<and> \<not> (depth < RazorDepth c \<and> staticValue - FutilityMargins c depth \<ge> beta)
       \<and> \<not> value_is_mate c beta
       \<and> e_non_pawn_material_stm e (ext w1) \<noteq> 0
       \<and> staticValue \<ge> beta - NullMoveMargin
       \<and> r_search r (- (beta - 1)) (depth - null_R c depth staticValue beta * OnePly c) (ply + 1)
             False threadID (MOVE_NONE c) wn = Some (v, w2)
       \<and> - v \<ge> beta
       \<longrightarrow>
         (depth < 6 * OnePly c \<longrightarrow>
            search c e r beta depth ply True threadID excl w0 = Some (NullMoveCutoff, beta, w3))
         \<and> (depth \<ge> 6 * OnePly c
              \<and> r_search r beta (depth - 5 * OnePly c) ply False threadID (MOVE_NONE c) w3
                    = Some (v', w4) \<longrightarrow>
            search c e r beta depth ply True threadID excl w0
              = (if v' \<ge> beta then Some (NullMoveCutoff, beta, w4)
                 else (case search_iid c e r beta depth ply threadID tte (tt_move_of c tte) False
                              (sv + FutilityMargins c depth) False w4 of
                         None \<Rightarrow> None
                       | Some (Return res) \<Rightarrow> Some res
                       | Some (Continue en) \<Rightarrow>
                           search_moves c e r beta depth ply threadID excl en))))"
  unfolding Let_def
proof (intro impI, elim conjE)
  let ?w = "init_node c e ply threadID w0"
  let ?tte = "e_tt_retrieve e (excl \<noteq> 0) (ext ?w)"
  let ?sv = "if tt_is_eval c ?tte then value_from_tt c (tte_value (the ?tte)) ply
             else fst (e_evaluate e threadID (ext ?w))"
  let ?w' = "upd_ss ply (\<lambda>s. s\<lparr> eval := ?sv \<rparr>) ?w"
  let ?w1 = "upd_ext (update_gains c e (currentMove (ss ?w' (ply - 1)))
                        (eval (ss ?w' (ply - 1))) (eval (ss ?w' ply))) ?w'"
  let ?wn = "upd_ext (e_do_null_move e) (upd_ss ply (\<lambda>s. s\<lparr> currentMove := MOVE_NULL c \<rparr>) ?w1)"
  let ?sV = "refine_eval c ?tte ?sv ply"
  assume pos: "0 < OnePly c" and deep: "OnePly c < depth"
    and pre: "\<not> (AbortSearch (glob ?w) \<or> e_thread_should_stop e threadID (ext ?w))"
      "\<not> (e_is_draw e (ext ?w) \<or> ply \<ge> PLY_MAX c - 1)"
      "\<not> value_mated_in c ply \<ge> beta" "\<not> value_mate_in c (ply + 1) < beta"
      "\<not> (case ?tte of Some t \<Rightarrow> ok_to_use_TT c t depth beta ply | None \<Rightarrow> False)"
    and guard: "\<not> e_is_check e (ext ?w)"
      "\<not> (depth < RazorDepth c \<and> ?sV - FutilityMargins c depth \<ge> beta)"
      "\<not> value_is_mate c beta"
      "e_non_pawn_material_stm e (ext ?w1) \<noteq> 0"
      "?sV \<ge> beta - NullMoveMargin"
    and null: "r_search r (- (beta - 1)) (depth - null_R c depth ?sV beta * OnePly c) (ply + 1)
             False threadID (MOVE_NONE c) ?wn = Some (v, w2)"
    and high: "- v \<ge> beta"
  have "search c e r beta depth ply True threadID excl w0
          = search_after_probe c e r beta depth ply True threadID excl ?tte (tt_move_of c ?tte) ?w"
    using deep pre by (intro search_no_cutoff) simp_all
  also have "\<dots> = (case search_null_move c e r beta depth ply threadID ?sV ?w1 of
                None \<Rightarrow> None
              | Some (Return res) \<Rightarrow> Some res
              | Some (Continue (mateThreat, wc)) \<Rightarrow>
                  (case search_iid c e r beta depth ply threadID ?tte (tt_move_of c ?tte) False
                          (?sv + FutilityMargins c depth) mateThreat wc of
                     None \<Rightarrow> None
                   | Some (Return res) \<Rightarrow> Some res
                   | Some (Continue en) \<Rightarrow> search_moves c e r beta depth ply threadID excl en))"
    unfolding search_after_probe_def
    by (subst search_pruning_null_move [OF deep guard])
       (simp split: option.splits flow.splits prod.splits)
  finally have enter: "search c e r beta depth ply True threadID excl w0
          = (case search_null_move c e r beta depth ply threadID ?sV ?w1 of
                None \<Rightarrow> None
              | Some (Return res) \<Rightarrow> Some res
              | Some (Continue (mateThreat, wc)) \<Rightarrow>
                  (case search_iid c e r beta depth ply threadID ?tte (tt_move_of c ?tte) False
                          (?sv + FutilityMargins c depth) mateThreat wc of
                     None \<Rightarrow> None
                   | Some (Return res) \<Rightarrow> Some res
                   | Some (Continue en) \<Rightarrow> search_moves c e r beta depth ply threadID excl en))" .
  have shallow: "search_null_move c e r beta depth ply threadID ?sV ?w1
          = Some (Return (NullMoveCutoff, beta, upd_ext (e_undo_null_move e) w2))"
    if "depth < 6 * OnePly c"
    using that null high by (simp add: search_null_move_R [OF pos] Let_def)
  have verify: "search_null_move c e r beta depth ply threadID ?sV ?w1
          = (if v' \<ge> beta then Some (Return (NullMoveCutoff, beta, w4))
             else Some (Continue (False, w4)))"
    if "depth \<ge> 6 * OnePly c"
      "r_search r beta (depth - 5 * OnePly c) ply False threadID (MOVE_NONE c)
         (upd_ext (e_undo_null_move e) w2) = Some (v', w4)"
    using that null high by (simp add: search_null_move_R [OF pos] Let_def)
  show "(depth < 6 * OnePly c \<longrightarrow>
            search c e r beta depth ply True threadID excl w0
              = Some (NullMoveCutoff, beta, upd_ext (e_undo_null_move e) w2))
         \<and> (depth \<ge> 6 * OnePly c
              \<and> r_search r beta (depth - 5 * OnePly c) ply False threadID (MOVE_NONE c)
                    (upd_ext (e_undo_null_move e) w2) = Some (v', w4) \<longrightarrow>
            search c e r beta depth ply True threadID excl w0
              = (if v' \<ge> beta then Some (NullMoveCutoff, beta, w4)
                 else (case search_iid c e r beta depth ply threadID ?tte (tt_move_of c ?tte) False
                              (?sv + FutilityMargins c depth) False w4 of
                         None \<Rightarrow> None
                       | Some (Return res) \<Rightarrow> Some res
                       | Some (Continue en) \<Rightarrow>
                           search_moves c e r beta depth ply threadID excl en)))"
    using shallow verify by (simp add: enter)
qed

text \<open>
  \<open>quiet\<close> against \<open>beta = 10\<close>: the null move search returns -60, so the null
  move fails high; at depth 4 and, after the verification search, at depth 12 the result is
  \<open>beta\<close>. \<open>tt_hit\<close> against \<open>beta = 55\<close> at depth 12: the table entry refines
  the static value to 300, which gives \<open>R = 5\<close>; the verification search returns 50,
  below \<open>beta\<close>, and the search goes on to its move loop.
\<close>

theorem null_move_search_witness:
  "outcome (search example_cfg toy_env null_rec 10 4 1 True 0 0 (toy_world quiet))
     = Some (NullMoveCutoff, 10)
   \<and> outcome (search example_cfg toy_env null_rec 10 12 1 True 0 0 (toy_world quiet))
     = Some (NullMoveCutoff, 10)
   \<and> null_R example_cfg 12 300 55 = 5
   \<and> outcome (search example_cfg toy_env null_rec 55 12 1 True 0 0 (toy_world tt_hit))
     = Some (NoMoveSearched, 0)"
proof -
  let ?wq = "init_node example_cfg toy_env 1 0 (toy_world quiet)"
  let ?wq' = "upd_ss 1 (\<lambda>s. s\<lparr> eval := 20 \<rparr>) ?wq"
  let ?wq1 = "upd_ext (update_gains example_cfg toy_env (currentMove (ss ?wq' (1 - 1)))
                        (eval (ss ?wq' (1 - 1))) (eval (ss ?wq' 1))) ?wq'"
  let ?wqn = "upd_ext (e_do_null_move toy_env)
                (upd_ss 1 (\<lambda>s. s\<lparr> currentMove := MOVE_NULL example_cfg \<rparr>) ?wq1)"
  let ?wh = "init_node example_cfg toy_env 1 0 (toy_world tt_hit)"
  let ?wh' = "upd_ss 1 (\<lambda>s. s\<lparr> eval := 0 \<rparr>) ?wh"
  let ?wh1 = "upd_ext (update_gains example_cfg toy_env (currentMove (ss ?wh' (1 - 1)))
                        (eval (ss ?wh' (1 - 1))) (eval (ss ?wh' 1))) ?wh'"
  let ?whn = "upd_ext (e_do_null_move toy_env)
                (upd_ss 1 (\<lambda>s. s\<lparr> currentMove := MOVE_NULL example_cfg \<rparr>) ?wh1)"
  note shallow = null_move_search [where c = example_cfg and e = toy_env and r = null_rec
      and beta = 10 and depth = 4 and ply = 1 and threadID = 0 and excl = 0
      and ?w0.0 = "toy_world quiet" and v = "- 60" and ?w2.0 = ?wqn]
  note deep = null_move_search [where c = example_cfg and e = toy_env and r = null_rec
      and beta = 10 and depth = 12 and ply = 1 and threadID = 0 and excl = 0
      and ?w0.0 = "toy_world quiet" and v = "- 60" and ?w2.0 = ?wqn and v' = 50
      and ?w4.0 = "upd_ext (e_undo_null_move toy_env) ?wqn"]
  note refuted = null_move_search [where c = example_cfg and e = toy_env and r = null_rec
      and beta = 55 and depth = 12 and ply = 1 and threadID = 0 and excl = 0
      and ?w0.0 = "toy_world tt_hit" and v = "- 60" and ?w2.0 = ?whn and v' = 50
      and ?w4.0 = "upd_ext (e_undo_null_move toy_env) ?whn"]
  let ?tq = "e_tt_retrieve toy_env (0 \<noteq> (0::int)) (ext ?wq)"
  let ?th = "e_tt_retrieve toy_env (0 \<noteq> (0::int)) (ext ?wh)"
  let ?svq = "if tt_is_eval example_cfg ?tq
              then value_from_tt example_cfg (tte_value (the ?tq)) 1
              else fst (e_evaluate toy_env 0 (ext ?wq))"
  let ?svh = "if tt_is_eval example_cfg ?th
              then value_from_tt example_cfg (tte_value (the ?th)) 1
              else fst (e_evaluate toy_env 0 (ext ?wh))"
  have 1: "search example_cfg toy_env null_rec 10 4 1 True 0 0 (toy_world quiet)
     = Some (NullMoveCutoff, 10, upd_ext (e_undo_null_move toy_env) ?wqn)"
    by (rule shallow [unfolded Let_def, THEN mp, THEN conjunct1, THEN mp])
       (simp_all add: toy_eval quiet_def null_rec_def)
  have 2: "search example_cfg toy_env null_rec 10 12 1 True 0 0 (toy_world quiet)
     = (if (10::int) \<le> 50
        then Some (NullMoveCutoff, 10, upd_ext (e_undo_null_move toy_env) ?wqn)
        else (case search_iid example_cfg toy_env null_rec 10 12 1 0 ?tq
                     (tt_move_of example_cfg ?tq) False
                     (?svq + FutilityMargins example_cfg 12) False
                     (upd_ext (e_undo_null_move toy_env) ?wqn) of
                None \<Rightarrow> None
              | Some (Return res) \<Rightarrow> Some res
              | Some (Continue en) \<Rightarrow> search_moves example_cfg toy_env null_rec 10 12 1 0 0 en))"
    by (rule deep [unfolded Let_def, THEN mp, THEN conjunct2, THEN mp])
       (simp_all add: toy_eval quiet_def null_rec_def)
  have 3: "search example_cfg toy_env null_rec 55 12 1 True 0 0 (toy_world tt_hit)
     = (if (55::int) \<le> 50
        then Some (NullMoveCutoff, 55, upd_ext (e_undo_null_move toy_env) ?whn)
        else (case search_iid example_cfg toy_env null_rec 55 12 1 0 ?th
                     (tt_move_of example_cfg ?th) False
                     (?svh + FutilityMargins example_cfg 12) False
                     (upd_ext (e_undo_null_move toy_env) ?whn) of
                None \<Rightarrow> None
              | Some (Return res) \<Rightarrow> Some res
              | Some (Continue en) \<Rightarrow> search_moves example_cfg toy_env null_rec 55 12 1 0 0 en))"
    by (rule refuted [unfolded Let_def, THEN mp, THEN conjunct2, THEN mp])
       (simp_all add: toy_eval tt_hit_def null_rec_def)
  have 4: "outcome (search example_cfg toy_env null_rec 55 12 1 True 0 0 (toy_world tt_hit))
      = Some (NoMoveSearched, 0)"
    unfolding 3
    by (simp add: toy_eval tt_hit_def null_rec_def outcome_def search_iid_def search_moves_def
        search_epilogue_def)
  have R: "null_R example_cfg 12 300 55 = 5"
    by (simp add: null_R_def example_cfg_sel)
  show ?thesis using 4 R by (simp add: 1 2 outcome_def)
qed

end
